theory Spec2Isabelle
  imports Complex_Main "HOL-Library.Sublist"
begin

section \<open>Billing upgrade and sponsorship views (corporate/views/upgrade.py)\<close>

text \<open>
  The three views of the module, \<open>upgrade\<close>, \<open>initial_upgrade\<close> and \<open>sponsorship\<close>,
  as functions over an explicit world: the relational store, the outbox of the mailer,
  the records of \<open>billing_logger\<close> and the calls that reached the billing back-end.
  An exception is the \<open>Inl\<close> of a result. The collaborators the module imports and does
  not define (the billing session, the form fields' validators, the mailer, the settings)
  are fields of parameter records.
\<close>

subsection \<open>Exceptions, log records, responses\<close>

text \<open>
  The exceptions a view meets. \<open>BaseException name\<close> stands for one that is not an
  instance of \<open>Exception\<close> (\<open>SystemExit\<close>, \<open>KeyboardInterrupt\<close>, \<open>GeneratorExit\<close>),
  by the name of its class; every other constructor is an instance of \<open>Exception\<close>.
\<close>

datatype exn =
    RequestVariableMissingError string
  | ValidationError string
  | OrganizationMemberRequiredError
  | BillingError string string
  | OtherException string
  | BaseException string

definition isinstance_Exception :: "exn \<Rightarrow> bool" where
  "isinstance_Exception e = (case e of BaseException _ \<Rightarrow> False | _ \<Rightarrow> True)"

text \<open>The arguments of a log call: strings, integers and \<open>None\<close>.\<close>

datatype py_value = PyStr string | PyInt int | PyNone

datatype log_level = WARNING | ERROR

record log_record =
  levelname :: log_level
  msg :: string
  args :: "py_value list"
  exc_info :: "exn option"
  stack_info :: bool

datatype json_value = JBool bool | JInt int | JOther

subsection \<open>Models\<close>

record Realm =
  realm_id :: int
  string_id :: string
  realm_org_type :: int
  plan_type :: int
  demo_organization_scheduled_deletion_date :: "int option"

record UserProfile =
  user_id :: int
  full_name :: string
  delivery_email :: string
  is_guest :: bool
  realm :: Realm

record ZulipSponsorshipRequest =
  sr_realm :: int
  requested_by :: int
  org_website :: string
  org_description :: string
  org_type :: int
  sr_expected_total_users :: string
  sr_paid_users_count :: string
  sr_paid_users_description :: string

record UpgradeRequest =
  ur_billing_modality :: string
  ur_schedule :: string
  ur_signed_seat_count :: string
  ur_salt :: string
  ur_onboarding :: bool
  ur_license_management :: "string option"
  ur_licenses :: "int option"

text \<open>
  The store: the sponsorship requests, the realm rows by primary key, and the two facts
  the delegated mutations own (the customers that are sponsorship-pending, by realm, and
  the users that are billing administrators).
\<close>

record database =
  sponsorship_requests :: "ZulipSponsorshipRequest list"
  realms :: "int \<rightharpoonup> Realm"
  sponsorship_pending_of :: "int \<rightharpoonup> bool"
  billing_admins :: "int set"

datatype orm_call =
    SaveSponsorshipRequest ZulipSponsorshipRequest
  | SaveRealm int "string list"

record email =
  template_prefix :: string
  to_emails :: "string list"
  from_name :: string
  from_address :: string
  reply_to_email :: string
  email_context :: "(string \<times> string) list"

record world =
  db :: database
  orm_calls :: "orm_call list"
  outbox :: "email list"
  billing_log :: "log_record list"
  backend_calls :: "UpgradeRequest list"

record Customer =
  sponsorship_pending :: bool
  default_discount :: "rat option"
  exempt_from_license_number_check :: bool

record page_params =
  pp_seat_count :: int
  annual_price :: int
  monthly_price :: int
  percent_off :: rat
  pp_demo_organization_scheduled_deletion_date :: "int option"

record page_context =
  ctx_realm :: Realm
  ctx_email :: string
  ctx_seat_count :: int
  ctx_signed_seat_count :: string
  ctx_salt :: string
  min_invoiced_licenses :: int
  default_invoice_days_until_due :: int
  ctx_exempt_from_license_number_check :: bool
  ctx_plan :: string
  free_trial_days :: "int option"
  ctx_onboarding :: bool
  ctx_page_params :: page_params
  is_demo_organization :: bool
  ctx_manual_license_management :: bool

datatype response =
    JsonSuccess "(string \<times> py_value) list"
  | Render string nat "page_context option"
  | HttpResponseRedirect string

type_synonym params = "string \<rightharpoonup> string"

text \<open>A step of a view changes the world and returns a value or raises.\<close>

type_synonym 'a action = "world \<Rightarrow> world \<times> (exn + 'a)"

subsection \<open>Request variables (zerver.lib.request, zerver.lib.validator)\<close>

text \<open>
  Modelled from the spec: \<open>has_request_variables\<close>, \<open>REQ\<close> and the validators
  \<open>check_string_in\<close>, \<open>check_bool\<close> and \<open>check_int\<close> are not in the module. A parameter
  declared \<open>REQ()\<close> with no default is required (the interface section lists
  \<open>signed_seat_count\<close> and \<open>salt\<close>, declared so, as required) and its absence is an
  error naming it; one declared with \<open>default=\<close> is optional and takes the default when
  absent. A validator rejects with an error naming the offending field. The parameters
  are bound in the order of the signature and the first failure ends the request.
\<close>

definition then_do :: "exn + 'a \<Rightarrow> ('a \<Rightarrow> exn + 'b) \<Rightarrow> exn + 'b" where
  "then_do r f = (case r of Inl e \<Rightarrow> Inl e | Inr v \<Rightarrow> f v)"

definition check_string_in :: "string list \<Rightarrow> string \<Rightarrow> string \<Rightarrow> exn + string" where
  "check_string_in possible_values var_name val =
     (if val \<in> set possible_values then Inr val
      else Inl (ValidationError (''Invalid '' @ var_name)))"

definition check_bool :: "string \<Rightarrow> json_value \<Rightarrow> exn + bool" where
  "check_bool var_name val =
     (case val of JBool b \<Rightarrow> Inr b
      | _ \<Rightarrow> Inl (ValidationError (var_name @ '' is not a boolean'')))"

definition check_int :: "string \<Rightarrow> json_value \<Rightarrow> exn + int" where
  "check_int var_name val =
     (case val of JInt i \<Rightarrow> Inr i
      | JBool b \<Rightarrow> Inr (if b then 1 else 0)
      | JOther \<Rightarrow> Inl (ValidationError (var_name @ '' is not an integer'')))"

definition REQ :: "params \<Rightarrow> string \<Rightarrow> exn + string" where
  "REQ post var_name =
     (case post var_name of None \<Rightarrow> Inl (RequestVariableMissingError var_name)
      | Some val \<Rightarrow> Inr val)"

definition REQ_str :: "params \<Rightarrow> string \<Rightarrow> (string \<Rightarrow> string \<Rightarrow> exn + string) \<Rightarrow> exn + string" where
  "REQ_str post var_name str_validator =
     (case post var_name of None \<Rightarrow> Inl (RequestVariableMissingError var_name)
      | Some val \<Rightarrow> str_validator var_name val)"

definition REQ_str_default ::
  "params \<Rightarrow> string \<Rightarrow> (string \<Rightarrow> string \<Rightarrow> exn + string) \<Rightarrow> exn + string option" where
  "REQ_str_default post var_name str_validator =
     (case post var_name of None \<Rightarrow> Inr None
      | Some val \<Rightarrow> then_do (str_validator var_name val) (\<lambda>v. Inr (Some v)))"

definition REQ_json_default ::
  "(string \<Rightarrow> json_value option) \<Rightarrow> params \<Rightarrow> string \<Rightarrow> (string \<Rightarrow> json_value \<Rightarrow> exn + 'a) \<Rightarrow> 'a
     \<Rightarrow> exn + 'a" where
  "REQ_json_default json_loads post var_name json_validator dflt =
     (case post var_name of None \<Rightarrow> Inr dflt
      | Some val \<Rightarrow>
          (case json_loads val of
             None \<Rightarrow> Inl (ValidationError (''Argument '' @ [CHR 0x22] @ var_name @ [CHR 0x22] @ '' is not valid JSON.''))
           | Some j \<Rightarrow> json_validator var_name j))"

subsection \<open>Constants and collaborators\<close>

text \<open>
  Modelled from the spec: the three enumerations of \<open>corporate.lib.stripe\<close>, which the
  data model gives as \<open>{charge_automatically, send_invoice}\<close>, \<open>{monthly, annual}\<close> and
  \<open>{automatic, manual}\<close>.
\<close>

definition VALID_BILLING_MODALITY_VALUES :: "string list" where
  "VALID_BILLING_MODALITY_VALUES = [''send_invoice'', ''charge_automatically'']"

definition VALID_BILLING_SCHEDULE_VALUES :: "string list" where
  "VALID_BILLING_SCHEDULE_VALUES = [''annual'', ''monthly'']"

definition VALID_LICENSE_MANAGEMENT_VALUES :: "string list" where
  "VALID_LICENSE_MANAGEMENT_VALUES = [''automatic'', ''manual'']"

text \<open>
  The collaborators, by the package they come from. Of Django: the settings, the URL
  resolver, the pieces of the form fields that the field classes delegate to
  (\<open>str.strip\<close>, the integer conversion, the URL normalisation and the validators, each
  returning its error messages), and the failure a write to the store may raise.
\<close>

record django =
  BILLING_ENABLED :: bool
  ZULIP_ADMINISTRATOR :: string
  FREE_TRIAL_DAYS :: "int option"
  reverse :: "string \<Rightarrow> string"
  py_strip :: "string \<Rightarrow> string"
  py_int :: "string \<Rightarrow> int option"
  url_to_python :: "string \<Rightarrow> string list + string"
  url_validators :: "nat \<Rightarrow> string \<Rightarrow> string list"
  char_validators :: "string \<Rightarrow> string list"
  orm_fault :: "orm_call \<Rightarrow> exn option"

text \<open>
  Of \<open>zerver\<close>: the JSON reader of the request variables, the membership gate, the
  role and organization-type names, the permission grant (which changes the store or
  raises), and the mailer (\<open>send_email_fault\<close> is the exception a send raises, if any).
\<close>

record zerver =
  json_loads :: "string \<Rightarrow> json_value option"
  is_organization_member :: "UserProfile \<Rightarrow> bool"
  PLAN_TYPE_STANDARD_FREE :: int
  get_role_name :: "UserProfile \<Rightarrow> string"
  get_org_type_display_name :: "int \<Rightarrow> string"
  do_make_user_billing_admin :: "UserProfile \<Rightarrow> database \<Rightarrow> exn + database"
  SUPPORT :: string
  tokenized_no_reply_address :: string
  send_email_fault :: "email \<Rightarrow> exn option"

text \<open>
  Of \<open>corporate\<close>: \<open>RealmBillingSession\<close> is the constructor of the session
  (\<open>None\<close> when it returns); \<open>do_upgrade\<close> may change the store and either returns
  the payload or raises; \<open>update_customer_sponsorship_status\<close> changes the store or
  raises; \<open>CONTACT_SUPPORT\<close> is the template of \<open>BillingError\<close>, applied to the
  address it is formatted with.
\<close>

record corporate =
  CONTACT_SUPPORT :: "string \<Rightarrow> string"
  MIN_INVOICED_LICENSES :: int
  DEFAULT_INVOICE_DAYS_UNTIL_DUE :: int
  MAX_ORG_URL_LENGTH :: nat
  RealmBillingSession :: "UserProfile \<Rightarrow> exn option"
  do_upgrade :: "UserProfile \<Rightarrow> UpgradeRequest \<Rightarrow> database \<Rightarrow> database \<times> (exn + (string \<times> py_value) list)"
  update_customer_sponsorship_status :: "UserProfile \<Rightarrow> bool \<Rightarrow> database \<Rightarrow> exn + database"
  get_latest_seat_count :: "Realm \<Rightarrow> int"
  sign_string :: "string \<Rightarrow> string \<times> string"
  get_support_url :: "Realm \<Rightarrow> string"
  get_customer_by_realm :: "Realm \<Rightarrow> Customer option"
  get_current_plan_by_customer :: "Customer \<Rightarrow> int option"

subsection \<open>upgrade\<close>

definition opt_str :: "string option \<Rightarrow> py_value" where
  "opt_str v = (case v of None \<Rightarrow> PyNone | Some s \<Rightarrow> PyStr s)"

definition opt_int :: "int option \<Rightarrow> py_value" where
  "opt_int v = (case v of None \<Rightarrow> PyNone | Some i \<Rightarrow> PyInt i)"

text \<open>
  The two \<open>except\<close> clauses of \<open>upgrade\<close>, in the order of the source:
  \<open>except BillingError\<close>, then \<open>except Exception\<close>. An exception that neither
  clause catches goes on as it is.
\<close>

definition upgrade_except ::
  "django \<Rightarrow> corporate \<Rightarrow> UserProfile \<Rightarrow> string \<Rightarrow> string \<Rightarrow> string option \<Rightarrow> int option \<Rightarrow> exn
     \<Rightarrow> world \<Rightarrow> world \<times> (exn + response)" where
  "upgrade_except dj co user billing_modality schedule license_management licenses e w =
     (case e of
        BillingError error_description message \<Rightarrow>
          (w\<lparr>billing_log := billing_log w @
               [\<lparr>levelname = WARNING,
                 msg = ''BillingError during upgrade: %s. user=%s, realm=%s (%s), billing_modality=%s, schedule=%s, license_management=%s, licenses=%s'',
                 args = [PyStr error_description, PyInt (user_id user),
                         PyInt (realm_id (realm user)), PyStr (string_id (realm user)),
                         PyStr billing_modality, PyStr schedule,
                         opt_str license_management, opt_int licenses],
                 exc_info = None, stack_info = False\<rparr>]\<rparr>,
           Inl e)
      | _ \<Rightarrow>
          if isinstance_Exception e then
            (w\<lparr>billing_log := billing_log w @
                 [\<lparr>levelname = ERROR, msg = ''Uncaught exception in billing:'', args = [],
                   exc_info = Some e, stack_info = True\<rparr>]\<rparr>,
             Inl (BillingError ''uncaught exception during upgrade''
                    (CONTACT_SUPPORT co (ZULIP_ADMINISTRATOR dj))))
          else (w, Inl e))"

text \<open>The \<open>try\<close> block of \<open>upgrade\<close>: the intent is built and handed to the back-end.\<close>

definition upgrade_try ::
  "corporate \<Rightarrow> UserProfile \<Rightarrow> string \<Rightarrow> string \<Rightarrow> string \<Rightarrow> string \<Rightarrow> bool \<Rightarrow> string option
     \<Rightarrow> int option \<Rightarrow> (string \<times> py_value) list action" where
  "upgrade_try co user billing_modality schedule signed_seat_count salt onboarding
       license_management licenses w =
     (let upgrade_request =
            \<lparr>ur_billing_modality = billing_modality, ur_schedule = schedule,
             ur_signed_seat_count = signed_seat_count, ur_salt = salt,
             ur_onboarding = onboarding, ur_license_management = license_management,
             ur_licenses = licenses\<rparr>
      in case RealmBillingSession co user of
           Some e \<Rightarrow> (w, Inl e)
         | None \<Rightarrow>
             (let w1 = w\<lparr>backend_calls := backend_calls w @ [upgrade_request]\<rparr>;
                  (db', r) = do_upgrade co user upgrade_request (db w1)
              in (w1\<lparr>db := db'\<rparr>, r)))"

text \<open>The body of \<open>upgrade\<close>, entered with the bound parameters.\<close>

definition upgrade_body ::
  "django \<Rightarrow> corporate \<Rightarrow> UserProfile \<Rightarrow> string \<Rightarrow> string \<Rightarrow> string \<Rightarrow> string \<Rightarrow> bool
     \<Rightarrow> string option \<Rightarrow> int option \<Rightarrow> response action" where
  "upgrade_body dj co user billing_modality schedule signed_seat_count salt onboarding
       license_management licenses w =
     (case upgrade_try co user billing_modality schedule signed_seat_count salt onboarding
             license_management licenses w of
        (w', Inr data) \<Rightarrow> (w', Inr (JsonSuccess data))
      | (w', Inl e) \<Rightarrow>
          upgrade_except dj co user billing_modality schedule license_management licenses e w')"

text \<open>The request variables of \<open>upgrade\<close>, bound in the order of the signature.\<close>

definition upgrade_request_variables ::
  "zerver \<Rightarrow> params
     \<Rightarrow> exn + string \<times> string \<times> string \<times> string \<times> bool \<times> string option \<times> int option" where
  "upgrade_request_variables zv post =
     then_do (REQ_str post ''billing_modality'' (check_string_in VALID_BILLING_MODALITY_VALUES))
       (\<lambda>billing_modality.
     then_do (REQ_str post ''schedule'' (check_string_in VALID_BILLING_SCHEDULE_VALUES))
       (\<lambda>schedule.
     then_do (REQ post ''signed_seat_count'') (\<lambda>signed_seat_count.
     then_do (REQ post ''salt'') (\<lambda>salt.
     then_do (REQ_json_default (json_loads zv) post ''onboarding'' check_bool False)
       (\<lambda>onboarding.
     then_do (REQ_str_default post ''license_management''
                (check_string_in VALID_LICENSE_MANAGEMENT_VALUES))
       (\<lambda>license_management.
     then_do (REQ_json_default (json_loads zv) post ''licenses''
                (\<lambda>n j. then_do (check_int n j) (\<lambda>i. Inr (Some i))) None)
       (\<lambda>licenses.
     Inr (billing_modality, schedule, signed_seat_count, salt, onboarding,
          license_management, licenses))))))))"

text \<open>
  The view with its decorators: the membership gate first, then the request variables,
  then the body.
\<close>

definition upgrade ::
  "django \<Rightarrow> zerver \<Rightarrow> corporate \<Rightarrow> UserProfile \<Rightarrow> params \<Rightarrow> response action" where
  "upgrade dj zv co user post w =
     (if \<not> is_organization_member zv user then (w, Inl OrganizationMemberRequiredError)
      else
        case upgrade_request_variables zv post of
          Inl e \<Rightarrow> (w, Inl e)
        | Inr (billing_modality, schedule, signed_seat_count, salt, onboarding,
               license_management, licenses) \<Rightarrow>
            upgrade_body dj co user billing_modality schedule signed_seat_count salt onboarding
              license_management licenses w)"

subsection \<open>initial_upgrade\<close>

text \<open>\<open>str\<close> of an integer: the decimal digits, with a sign.\<close>

fun str_nat :: "nat \<Rightarrow> string" where
  "str_nat n =
     (if n < 10 then [''0123456789'' ! n]
      else str_nat (n div 10) @ [''0123456789'' ! (n mod 10)])"

declare str_nat.simps [simp del]

definition str_int :: "int \<Rightarrow> string" where
  "str_int i = (if i < 0 then CHR ''-'' # str_nat (nat (- i)) else str_nat (nat i))"

text \<open>
  The body of \<open>initial_upgrade\<close>, for the authenticated user of the request. The
  conversion of the discount to a float is not part of the model: the context carries
  the decimal.
\<close>

definition initial_upgrade_body ::
  "django \<Rightarrow> zerver \<Rightarrow> corporate \<Rightarrow> UserProfile \<Rightarrow> bool \<Rightarrow> bool \<Rightarrow> response" where
  "initial_upgrade_body dj zv co user onboarding manual_license_management =
     (if \<not> BILLING_ENABLED dj \<or> is_guest user then Render ''404.html'' 404 None
      else
        let customer = get_customer_by_realm co (realm user) in
        if (case customer of None \<Rightarrow> False | Some c \<Rightarrow> sponsorship_pending c)
           \<or> plan_type (realm user) = PLAN_TYPE_STANDARD_FREE zv
        then HttpResponseRedirect (reverse dj ''sponsorship_request'')
        else
          let billing_page_url = reverse dj ''billing_home'' in
          if (case customer of None \<Rightarrow> False
              | Some c \<Rightarrow> get_current_plan_by_customer co c \<noteq> None \<or> onboarding)
          then HttpResponseRedirect
                 (if onboarding then billing_page_url @ ''?onboarding=true'' else billing_page_url)
          else
            let percent_off =
                  (case customer of None \<Rightarrow> 0
                   | Some c \<Rightarrow> (case default_discount c of None \<Rightarrow> 0 | Some d \<Rightarrow> d));
                exempt =
                  (case customer of None \<Rightarrow> False
                   | Some c \<Rightarrow> exempt_from_license_number_check c);
                seat_count = get_latest_seat_count co (realm user);
                (signed_seat_count, salt) = sign_string co (str_int seat_count)
            in Render ''corporate/upgrade.html'' 200
                 (Some \<lparr>ctx_realm = realm user, ctx_email = delivery_email user,
                         ctx_seat_count = seat_count, ctx_signed_seat_count = signed_seat_count,
                         ctx_salt = salt,
                         min_invoiced_licenses = max seat_count (MIN_INVOICED_LICENSES co),
                         default_invoice_days_until_due = DEFAULT_INVOICE_DAYS_UNTIL_DUE co,
                         ctx_exempt_from_license_number_check = exempt,
                         ctx_plan = ''Zulip Cloud Standard'',
                         free_trial_days = FREE_TRIAL_DAYS dj,
                         ctx_onboarding = onboarding,
                         ctx_page_params =
                           \<lparr>pp_seat_count = seat_count, annual_price = 8000,
                            monthly_price = 800, percent_off = percent_off,
                            pp_demo_organization_scheduled_deletion_date =
                              demo_organization_scheduled_deletion_date (realm user)\<rparr>,
                         is_demo_organization =
                           (demo_organization_scheduled_deletion_date (realm user) \<noteq> None),
                         ctx_manual_license_management = manual_license_management\<rparr>))"

definition initial_upgrade ::
  "django \<Rightarrow> zerver \<Rightarrow> corporate \<Rightarrow> UserProfile \<Rightarrow> params \<Rightarrow> exn + response" where
  "initial_upgrade dj zv co user get =
     then_do (REQ_json_default (json_loads zv) get ''onboarding'' check_bool False)
       (\<lambda>onboarding.
     then_do (REQ_json_default (json_loads zv) get ''manual_license_management'' check_bool False)
       (\<lambda>manual_license_management.
     Inr (initial_upgrade_body dj zv co user onboarding manual_license_management)))"

subsection \<open>SponsorshipRequestForm\<close>

text \<open>
  The fields of the form as Django's field classes clean a submitted string:
  \<open>to_python\<close>, then the check that a required field is not empty, then the
  validators, whose messages are collected. A character field strips its value first;
  the integer field does not.
\<close>

definition CharField_to_python :: "django \<Rightarrow> string \<Rightarrow> string" where
  "CharField_to_python dj val = (if val \<noteq> [] then py_strip dj val else val)"

definition CharField_clean :: "django \<Rightarrow> bool \<Rightarrow> string \<Rightarrow> string list + string" where
  "CharField_clean dj required val =
     (let v = CharField_to_python dj val in
      if v = [] then (if required then Inl [''This field is required.''] else Inr v)
      else (case char_validators dj v of [] \<Rightarrow> Inr v | errors \<Rightarrow> Inl errors))"

definition URLField_clean :: "django \<Rightarrow> nat \<Rightarrow> bool \<Rightarrow> string \<Rightarrow> string list + string" where
  "URLField_clean dj max_length required val =
     (let v = CharField_to_python dj val in
      case (if v \<noteq> [] then url_to_python dj v else Inr v) of
        Inl errors \<Rightarrow> Inl errors
      | Inr u \<Rightarrow>
          if u = [] then (if required then Inl [''This field is required.''] else Inr u)
          else (case url_validators dj max_length u of [] \<Rightarrow> Inr u | errors \<Rightarrow> Inl errors))"

definition IntegerField_clean :: "django \<Rightarrow> string \<Rightarrow> string list + int" where
  "IntegerField_clean dj val =
     (if val = [] then Inl [''This field is required.'']
      else (case py_int dj val of None \<Rightarrow> Inl [''Enter a whole number.''] | Some i \<Rightarrow> Inr i))"

record cleaned_data =
  cd_website :: string
  cd_organization_type :: int
  cd_description :: string
  cd_expected_total_users :: string
  cd_paid_users_count :: string
  cd_paid_users_description :: string

definition field_data :: "params \<Rightarrow> string \<Rightarrow> string" where
  "field_data post_data name = (case post_data name of None \<Rightarrow> [] | Some v \<Rightarrow> v)"

definition field_errors :: "string \<Rightarrow> string list + 'a \<Rightarrow> (string \<times> string list) list" where
  "field_errors name r = (case r of Inl errors \<Rightarrow> [(name, errors)] | Inr _ \<Rightarrow> [])"

text \<open>
  The bound form: the error lists of the fields that failed, in the order the fields are
  declared, or the cleaned data when no field failed.
\<close>

definition SponsorshipRequestForm ::
  "django \<Rightarrow> corporate \<Rightarrow> params \<Rightarrow> (string \<times> string list) list + cleaned_data" where
  "SponsorshipRequestForm dj co post_data =
     (let website = URLField_clean dj (MAX_ORG_URL_LENGTH co) False (field_data post_data ''website'');
          organization_type = IntegerField_clean dj (field_data post_data ''organization_type'');
          description = CharField_clean dj True (field_data post_data ''description'');
          expected_total_users = CharField_clean dj True (field_data post_data ''expected_total_users'');
          paid_users_count = CharField_clean dj True (field_data post_data ''paid_users_count'');
          paid_users_description =
            CharField_clean dj False (field_data post_data ''paid_users_description'')
      in case (website, organization_type, description, expected_total_users, paid_users_count,
               paid_users_description) of
           (Inr w, Inr t, Inr d, Inr e, Inr c, Inr p) \<Rightarrow>
             Inr \<lparr>cd_website = w, cd_organization_type = t, cd_description = d,
                  cd_expected_total_users = e, cd_paid_users_count = c,
                  cd_paid_users_description = p\<rparr>
         | _ \<Rightarrow>
             Inl (field_errors ''website'' website
                  @ field_errors ''organization_type'' organization_type
                  @ field_errors ''description'' description
                  @ field_errors ''expected_total_users'' expected_total_users
                  @ field_errors ''paid_users_count'' paid_users_count
                  @ field_errors ''paid_users_description'' paid_users_description))"

text \<open>\<open>sep.join(xs)\<close>.\<close>

fun join :: "string \<Rightarrow> string list \<Rightarrow> string" where
  "join sep [] = []"
| "join sep [x] = x"
| "join sep (x # y # ys) = x @ sep @ join sep (y # ys)"

subsection \<open>The store and the transaction\<close>

text \<open>
  Steps are composed in sequence; the first exception ends the sequence. Every write the
  view asks of the object-relational mapper is recorded in \<open>orm_calls\<close>, whether or not
  it lasts.
\<close>

definition bind_action :: "'a action \<Rightarrow> ('a \<Rightarrow> 'b action) \<Rightarrow> 'b action" where
  "bind_action m f w = (case m w of (w', Inl e) \<Rightarrow> (w', Inl e) | (w', Inr v) \<Rightarrow> f v w')"

definition return_action :: "'a \<Rightarrow> 'a action" where
  "return_action v w = (w, Inr v)"

text \<open>
  \<open>transaction.atomic()\<close>: when the block raises, the store is the one the block was
  entered with and the exception goes on; when it returns, its writes last.
\<close>

definition atomic :: "'a action \<Rightarrow> 'a action" where
  "atomic block w =
     (case block w of
        (w', Inl e) \<Rightarrow> (w'\<lparr>db := db w\<rparr>, Inl e)
      | (w', Inr v) \<Rightarrow> (w', Inr v))"

text \<open>A delegated mutation of the store, as a step.\<close>

definition delegate :: "(database \<Rightarrow> exn + database) \<Rightarrow> unit action" where
  "delegate f w = (case f (db w) of Inl e \<Rightarrow> (w, Inl e) | Inr d \<Rightarrow> (w\<lparr>db := d\<rparr>, Inr ()))"

text \<open>\<open>sponsorship_request.save()\<close>: a new row.\<close>

definition ZulipSponsorshipRequest_save :: "django \<Rightarrow> ZulipSponsorshipRequest \<Rightarrow> unit action" where
  "ZulipSponsorshipRequest_save dj row w =
     (let w1 = w\<lparr>orm_calls := orm_calls w @ [SaveSponsorshipRequest row]\<rparr> in
      case orm_fault dj (SaveSponsorshipRequest row) of
        Some e \<Rightarrow> (w1, Inl e)
      | None \<Rightarrow>
          (w1\<lparr>db := (db w1)\<lparr>sponsorship_requests := sponsorship_requests (db w1) @ [row]\<rparr>\<rparr>,
           Inr ()))"

text \<open>
  \<open>realm.save(update_fields=...)\<close>: the named columns of the stored row take the values
  of the object, the other columns of the row stay; it raises when no row has the key.
\<close>

definition set_column :: "Realm \<Rightarrow> string \<Rightarrow> Realm \<Rightarrow> Realm" where
  "set_column obj name row =
     (if name = ''org_type'' then row\<lparr>realm_org_type := realm_org_type obj\<rparr>
      else if name = ''string_id'' then row\<lparr>string_id := string_id obj\<rparr>
      else if name = ''plan_type'' then row\<lparr>plan_type := plan_type obj\<rparr>
      else if name = ''demo_organization_scheduled_deletion_date''
        then row\<lparr>demo_organization_scheduled_deletion_date :=
                   demo_organization_scheduled_deletion_date obj\<rparr>
      else row)"

definition Realm_save :: "django \<Rightarrow> Realm \<Rightarrow> string list \<Rightarrow> unit action" where
  "Realm_save dj obj update_fields w =
     (let w1 = w\<lparr>orm_calls := orm_calls w @ [SaveRealm (realm_id obj) update_fields]\<rparr> in
      case orm_fault dj (SaveRealm (realm_id obj) update_fields) of
        Some e \<Rightarrow> (w1, Inl e)
      | None \<Rightarrow>
          (case realms (db w1) (realm_id obj) of
             None \<Rightarrow> (w1, Inl (OtherException ''DatabaseError''))
           | Some row \<Rightarrow>
               (w1\<lparr>db := (db w1)\<lparr>realms :=
                    (realms (db w1))(realm_id obj \<mapsto> foldr (set_column obj) update_fields row)\<rparr>\<rparr>,
                Inr ())))"

definition send_email :: "zerver \<Rightarrow> email \<Rightarrow> unit action" where
  "send_email zv m w =
     (case send_email_fault zv m of
        Some e \<Rightarrow> (w, Inl e)
      | None \<Rightarrow> (w\<lparr>outbox := outbox w @ [m]\<rparr>, Inr ()))"

subsection \<open>sponsorship\<close>

text \<open>The row built from the cleaned data of the form.\<close>

definition new_sponsorship_request :: "UserProfile \<Rightarrow> cleaned_data \<Rightarrow> ZulipSponsorshipRequest" where
  "new_sponsorship_request user cleaned =
     \<lparr>sr_realm = realm_id (realm user), requested_by = user_id user,
      org_website = cd_website cleaned, org_description = cd_description cleaned,
      org_type = cd_organization_type cleaned,
      sr_expected_total_users = cd_expected_total_users cleaned,
      sr_paid_users_count = cd_paid_users_count cleaned,
      sr_paid_users_description = cd_paid_users_description cleaned\<rparr>"

text \<open>
  The block under \<open>transaction.atomic()\<close>. The object \<open>realm\<close> is the one in memory; the
  assignment to its \<open>org_type\<close> is the updated record handed to \<open>Realm_save\<close>.
\<close>

definition sponsorship_block ::
  "django \<Rightarrow> zerver \<Rightarrow> corporate \<Rightarrow> UserProfile \<Rightarrow> cleaned_data \<Rightarrow> string action" where
  "sponsorship_block dj zv co user cleaned =
     (let organization_type = cd_organization_type cleaned in
        bind_action (ZulipSponsorshipRequest_save dj (new_sponsorship_request user cleaned)) (\<lambda>_.
        bind_action
          (if realm_org_type (realm user) \<noteq> organization_type
           then Realm_save dj ((realm user)\<lparr>realm_org_type := organization_type\<rparr>) [''org_type'']
           else return_action ()) (\<lambda>_.
        bind_action (delegate (update_customer_sponsorship_status co user True)) (\<lambda>_.
        bind_action (delegate (do_make_user_billing_admin zv user)) (\<lambda>_.
        return_action (get_org_type_display_name zv organization_type))))))"

text \<open>The message handed to \<open>send_email\<close>, with its context.\<close>

definition sponsorship_email ::
  "zerver \<Rightarrow> corporate \<Rightarrow> UserProfile \<Rightarrow> string \<Rightarrow> string \<Rightarrow> string \<Rightarrow> string \<Rightarrow> string \<Rightarrow> string
     \<Rightarrow> email" where
  "sponsorship_email zv co user org_type_display_name website description
       expected_total_users paid_users_count paid_users_description =
     \<lparr>template_prefix = ''zerver/emails/sponsorship_request'',
      to_emails = [SUPPORT zv],
      from_name = ''Zulip sponsorship'',
      from_address = tokenized_no_reply_address zv,
      reply_to_email = delivery_email user,
      email_context =
        [(''requested_by'', full_name user),
         (''user_role'', get_role_name zv user),
         (''string_id'', string_id (realm user)),
         (''support_url'', get_support_url co (realm user)),
         (''organization_type'', org_type_display_name),
         (''website'', website),
         (''description'', description),
         (''expected_total_users'', expected_total_users),
         (''paid_users_count'', paid_users_count),
         (''paid_users_description'', paid_users_description)]\<rparr>"

text \<open>The body of \<open>sponsorship\<close>, entered with the bound parameters.\<close>

definition sponsorship_body ::
  "django \<Rightarrow> zerver \<Rightarrow> corporate \<Rightarrow> UserProfile \<Rightarrow> params \<Rightarrow> string \<Rightarrow> string \<Rightarrow> string \<Rightarrow> string
     \<Rightarrow> string \<Rightarrow> string \<Rightarrow> response action" where
  "sponsorship_body dj zv co user post organization_type website description
       expected_total_users paid_users_count paid_users_description w =
     (case RealmBillingSession co user of
        Some e \<Rightarrow> (w, Inl e)
      | None \<Rightarrow>
          (let post_data = post(''organization_type'' \<mapsto> organization_type)
           in case SponsorshipRequestForm dj co post_data of
                Inr cleaned \<Rightarrow>
                  bind_action (atomic (sponsorship_block dj zv co user cleaned))
                    (\<lambda>org_type_display_name.
                  bind_action
                    (send_email zv
                       (sponsorship_email zv co user org_type_display_name website description
                          expected_total_users paid_users_count paid_users_description))
                    (\<lambda>_. return_action (JsonSuccess []))) w
              | Inl errors \<Rightarrow>
                  (w, Inl (BillingError ''Form validation error''
                             (join '' '' (concat (map snd errors)))))))"

text \<open>
  The request variables of \<open>sponsorship\<close>, in the order of the signature, each declared
  \<open>REQ()\<close> with no default.
\<close>

definition sponsorship_request_variables ::
  "params \<Rightarrow> exn + string \<times> string \<times> string \<times> string \<times> string \<times> string" where
  "sponsorship_request_variables post =
     then_do (REQ post ''organization-type'') (\<lambda>organization_type.
     then_do (REQ post ''website'') (\<lambda>website.
     then_do (REQ post ''description'') (\<lambda>description.
     then_do (REQ post ''expected_total_users'') (\<lambda>expected_total_users.
     then_do (REQ post ''paid_users_count'') (\<lambda>paid_users_count.
     then_do (REQ post ''paid_users_description'') (\<lambda>paid_users_description.
     Inr (organization_type, website, description, expected_total_users,
          paid_users_count, paid_users_description)))))))"

text \<open>The view with its decorators: the membership gate, the request variables, the body.\<close>

definition sponsorship ::
  "django \<Rightarrow> zerver \<Rightarrow> corporate \<Rightarrow> UserProfile \<Rightarrow> params \<Rightarrow> response action" where
  "sponsorship dj zv co user post w =
     (if \<not> is_organization_member zv user then (w, Inl OrganizationMemberRequiredError)
      else
        case sponsorship_request_variables post of
          Inl e \<Rightarrow> (w, Inl e)
        | Inr (organization_type, website, description, expected_total_users,
               paid_users_count, paid_users_description) \<Rightarrow>
            sponsorship_body dj zv co user post organization_type website description
              expected_total_users paid_users_count paid_users_description w)"

subsection \<open>Observations on responses and exceptions\<close>


definition rendered_template :: "response \<Rightarrow> string option" where
  "rendered_template r = (case r of Render template _ _ \<Rightarrow> Some template | _ \<Rightarrow> None)"

definition status_code :: "response \<Rightarrow> nat" where
  "status_code r = (case r of Render _ status _ \<Rightarrow> status | HttpResponseRedirect _ \<Rightarrow> 302
                    | JsonSuccess _ \<Rightarrow> 200)"

definition redirect_url :: "response \<Rightarrow> string option" where
  "redirect_url r = (case r of HttpResponseRedirect url \<Rightarrow> Some url | _ \<Rightarrow> None)"

subsection \<open>A sample deployment\<close>

text \<open>
  One realm, one member, and collaborators that succeed: the inputs at which the
  theorems below are instantiated.
\<close>

definition strip_spaces :: "string \<Rightarrow> string" where
  "strip_spaces s =
     rev (dropWhile (\<lambda>c. c = CHR '' '') (rev (dropWhile (\<lambda>c. c = CHR '' '') s)))"

definition example_realm :: Realm where
  "example_realm =
     \<lparr>realm_id = 1, string_id = ''zulip'', realm_org_type = 10, plan_type = 1,
      demo_organization_scheduled_deletion_date = None\<rparr>"

definition example_user :: UserProfile where
  "example_user =
     \<lparr>user_id = 7, full_name = ''Iago'', delivery_email = ''iago@zulip.com'',
      is_guest = False, realm = example_realm\<rparr>"

definition example_django :: django where
  "example_django =
     \<lparr>BILLING_ENABLED = True, ZULIP_ADMINISTRATOR = ''admin@zulip.com'',
      FREE_TRIAL_DAYS = None,
      reverse = (\<lambda>name. ''/'' @ name @ ''/''),
      py_strip = strip_spaces,
      py_int = (\<lambda>s. if s = ''10'' then Some 10 else if s = ''20'' then Some 20 else None),
      url_to_python = Inr,
      url_validators = (\<lambda>n u. if n < length u then [''Ensure this value is shorter.''] else []),
      char_validators = (\<lambda>_. []),
      orm_fault = (\<lambda>_. None)\<rparr>"

definition example_zerver :: zerver where
  "example_zerver =
     \<lparr>json_loads = (\<lambda>s. if s = ''true'' then Some (JBool True)
                         else if s = ''false'' then Some (JBool False) else None),
      is_organization_member = (\<lambda>u. \<not> is_guest u),
      PLAN_TYPE_STANDARD_FREE = 4,
      get_role_name = (\<lambda>_. ''Member''),
      get_org_type_display_name = (\<lambda>t. if t = 20 then ''Education'' else []),
      do_make_user_billing_admin =
        (\<lambda>u d. Inr (d\<lparr>billing_admins := insert (user_id u) (billing_admins d)\<rparr>)),
      SUPPORT = ''support@zulip.com'',
      tokenized_no_reply_address = ''noreply-token@zulip.com'',
      send_email_fault = (\<lambda>_. None)\<rparr>"

definition example_corporate :: corporate where
  "example_corporate =
     \<lparr>CONTACT_SUPPORT = (\<lambda>email. ''Something went wrong. Please contact '' @ email @ ''.''),
      MIN_INVOICED_LICENSES = 30,
      DEFAULT_INVOICE_DAYS_UNTIL_DUE = 30,
      MAX_ORG_URL_LENGTH = 200,
      RealmBillingSession = (\<lambda>_. None),
      do_upgrade = (\<lambda>u r d. (d, Inr [])),
      update_customer_sponsorship_status =
        (\<lambda>u pending d.
           Inr (d\<lparr>sponsorship_pending_of :=
                     (sponsorship_pending_of d)(realm_id (realm u) \<mapsto> pending)\<rparr>)),
      get_latest_seat_count = (\<lambda>_. 7),
      sign_string = (\<lambda>s. (s @ '':signature'', ''salt'')),
      get_support_url = (\<lambda>r. ''/activity/support?q='' @ string_id r),
      get_customer_by_realm = (\<lambda>_. None),
      get_current_plan_by_customer = (\<lambda>_. None)\<rparr>"

text \<open>
  The same, with a grant that raises once the customer of the realm is
  sponsorship-pending and returns otherwise.
\<close>

definition example_zerver_grant_raises :: zerver where
  "example_zerver_grant_raises =
     example_zerver
       \<lparr>do_make_user_billing_admin :=
          (\<lambda>u d. if sponsorship_pending_of d (realm_id (realm u)) = Some True
                 then Inl (OtherException ''grant failed'')
                 else Inr (d\<lparr>billing_admins := insert (user_id u) (billing_admins d)\<rparr>))\<rparr>"


definition example_world :: world where
  "example_world =
     \<lparr>db = \<lparr>sponsorship_requests = [], realms = [1 \<mapsto> example_realm],
            sponsorship_pending_of = Map.empty, billing_admins = {}\<rparr>,
      orm_calls = [], outbox = [], billing_log = [], backend_calls = []\<rparr>"

text \<open>
  The same world, where the stored row of the realm has another plan than the object in
  memory.
\<close>

definition example_world_other_plan :: world where
  "example_world_other_plan =
     example_world\<lparr>db := (db example_world)\<lparr>realms := [1 \<mapsto> example_realm\<lparr>plan_type := 3\<rparr>]\<rparr>\<rparr>"

definition example_sponsorship_post :: params where
  "example_sponsorship_post =
     [''organization-type'' \<mapsto> ''20'', ''website'' \<mapsto> [],
      ''description'' \<mapsto> '' A school '', ''expected_total_users'' \<mapsto> ''40'',
      ''paid_users_count'' \<mapsto> ''0'', ''paid_users_description'' \<mapsto> []]"

definition example_upgrade_post :: params where
  "example_upgrade_post =
     [''billing_modality'' \<mapsto> ''charge_automatically'', ''schedule'' \<mapsto> ''monthly'',
      ''signed_seat_count'' \<mapsto> ''7:signature'', ''salt'' \<mapsto> ''salt'']"

section \<open>Properties\<close>

lemmas request_defs =
  then_do_def REQ_def REQ_str_def REQ_str_default_def REQ_json_default_def
  check_string_in_def check_bool_def check_int_def
  VALID_BILLING_MODALITY_VALUES_def VALID_BILLING_SCHEDULE_VALUES_def
  VALID_LICENSE_MANAGEMENT_VALUES_def

lemmas example_defs =
  example_realm_def example_user_def example_django_def example_zerver_def
  example_corporate_def example_world_def example_sponsorship_post_def
  example_upgrade_post_def strip_spaces_def

subsection \<open>upgrade: the two tiers of failures\<close>

text \<open>
  C5. When the \<open>try\<close> block of \<open>upgrade\<close> raises a \<open>BillingError\<close>, one record is
  added to the billing log, at warning level, with the error's description, the user id,
  the realm id and string id, the modality, the schedule, the license management and the
  licenses; the view then raises the same error, description and message as they were.
\<close>

theorem upgrade_billing_error_reraised:
  assumes "is_organization_member zv user"
    and "upgrade_request_variables zv post =
           Inr (billing_modality, schedule, signed_seat_count, salt, onboarding,
                license_management, licenses)"
    and "upgrade_try co user billing_modality schedule signed_seat_count salt onboarding
           license_management licenses w = (w', Inl (BillingError error_description message))"
  shows "upgrade dj zv co user post w =
           (w'\<lparr>billing_log := billing_log w' @
                 [\<lparr>levelname = WARNING,
                   msg = ''BillingError during upgrade: %s. user=%s, realm=%s (%s), billing_modality=%s, schedule=%s, license_management=%s, licenses=%s'',
                   args = [PyStr error_description, PyInt (user_id user),
                           PyInt (realm_id (realm user)), PyStr (string_id (realm user)),
                           PyStr billing_modality, PyStr schedule,
                           opt_str license_management, opt_int licenses],
                   exc_info = None, stack_info = False\<rparr>]\<rparr>,
            Inl (BillingError error_description message))"
  using assms by (simp add: upgrade_def upgrade_body_def upgrade_except_def)

theorem upgrade_billing_error_reraised_witness:
  "snd (upgrade example_django example_zerver
          (example_corporate\<lparr>do_upgrade :=
             (\<lambda>u r d. (d, Inl (BillingError ''not enough licenses'' ''Add licenses.'')))\<rparr>)
          example_user example_upgrade_post example_world)
     = Inl (BillingError ''not enough licenses'' ''Add licenses.'')
   \<and> map levelname (billing_log (fst (upgrade example_django example_zerver
          (example_corporate\<lparr>do_upgrade :=
             (\<lambda>u r d. (d, Inl (BillingError ''not enough licenses'' ''Add licenses.'')))\<rparr>)
          example_user example_upgrade_post example_world))) = [WARNING]"
proof -
  let ?co = "example_corporate\<lparr>do_upgrade :=
             (\<lambda>u r d. (d, Inl (BillingError ''not enough licenses'' ''Add licenses.'')))\<rparr>"
  have member: "is_organization_member example_zerver example_user"
    by (simp add: example_defs)
  have vars: "upgrade_request_variables example_zerver example_upgrade_post =
                Inr (''charge_automatically'', ''monthly'', ''7:signature'', ''salt'', False,
                     None, None)"
    by (simp add: upgrade_request_variables_def request_defs example_defs)
  have raised: "upgrade_try ?co example_user ''charge_automatically'' ''monthly''
                  ''7:signature'' ''salt'' False None None example_world =
                (fst (upgrade_try ?co example_user ''charge_automatically'' ''monthly''
                        ''7:signature'' ''salt'' False None None example_world),
                 Inl (BillingError ''not enough licenses'' ''Add licenses.''))"
    by (simp add: upgrade_try_def example_defs)
  show ?thesis
    using upgrade_billing_error_reraised [OF member vars raised, of example_django]
    by (simp add: upgrade_try_def example_defs)
qed




subsection \<open>upgrade: the enumerations\<close>

text \<open>
  C7. When a member's request carries a \<open>billing_modality\<close> or a \<open>schedule\<close> outside its
  enumeration, \<open>upgrade\<close> raises the error of the request variables that names the
  offending field and leaves the world as it was: no call reaches the back-end, nothing
  is logged, nothing is stored. The variables are bound in order, so a request that
  lacks \<open>billing_modality\<close> is rejected for that before its \<open>schedule\<close> is looked at.
\<close>

theorem upgrade_rejects_outside_enumeration:
  assumes "is_organization_member zv user"
    and "(\<exists>v. post ''billing_modality'' = Some v \<and> v \<notin> set VALID_BILLING_MODALITY_VALUES)
         \<or> (\<exists>v. post ''schedule'' = Some v \<and> v \<notin> set VALID_BILLING_SCHEDULE_VALUES)"
  shows "\<exists>e. upgrade dj zv co user post w = (w, Inl e)
           \<and> e \<in> {ValidationError ''Invalid billing_modality'',
                    ValidationError ''Invalid schedule'',
                    RequestVariableMissingError ''billing_modality''}"
  using assms
  by (auto simp: upgrade_def upgrade_request_variables_def then_do_def REQ_str_def
        check_string_in_def split: option.splits sum.splits)

theorem upgrade_rejects_outside_enumeration_witness:
  "upgrade example_django example_zerver example_corporate example_user
     (example_upgrade_post(''schedule'' \<mapsto> ''weekly'')) example_world
   = (example_world, Inl (ValidationError ''Invalid schedule''))"
proof -
  have member: "is_organization_member example_zerver example_user"
    by (simp add: example_defs)
  have outside:
    "(\<exists>v. (example_upgrade_post(''schedule'' \<mapsto> ''weekly'')) ''billing_modality'' = Some v
          \<and> v \<notin> set VALID_BILLING_MODALITY_VALUES)
     \<or> (\<exists>v. (example_upgrade_post(''schedule'' \<mapsto> ''weekly'')) ''schedule'' = Some v
          \<and> v \<notin> set VALID_BILLING_SCHEDULE_VALUES)"
    by (simp add: example_defs request_defs)
  from upgrade_rejects_outside_enumeration [OF member outside]
  obtain e where
    "upgrade example_django example_zerver example_corporate example_user
       (example_upgrade_post(''schedule'' \<mapsto> ''weekly'')) example_world = (example_world, Inl e)"
    by blast
  then show ?thesis
    by (simp add: upgrade_def upgrade_request_variables_def request_defs example_defs)
qed

subsection \<open>sponsorship\<close>

lemmas form_defs =
  SponsorshipRequestForm_def URLField_clean_def IntegerField_clean_def CharField_clean_def
  CharField_to_python_def field_data_def field_errors_def Let_def

lemmas block_defs =
  sponsorship_block_def bind_action_def return_action_def delegate_def
  ZulipSponsorshipRequest_save_def Realm_save_def

subsection \<open>Steps in sequence\<close>

lemma bind_action_Inr:
  "bind_action m f w = (w', Inr v) \<longleftrightarrow> (\<exists>w1 u. m w = (w1, Inr u) \<and> f u w1 = (w', Inr v))"
  by (cases "m w") (auto simp: bind_action_def split: sum.splits)

lemma bind_action_fails_left: "isl (snd (m w)) \<Longrightarrow> isl (snd (bind_action m f w))"
  by (cases "m w") (auto simp: bind_action_def isl_def split: sum.splits)

lemma bind_action_fails_right:
  "(\<And>v w'. m w = (w', Inr v) \<Longrightarrow> isl (snd (f v w'))) \<Longrightarrow> isl (snd (bind_action m f w))"
  by (cases "m w") (auto simp: bind_action_def isl_def split: sum.splits)

lemma bind_action_outbox:
  assumes "\<And>w. outbox (fst (m w)) = outbox w"
    and "\<And>v w. outbox (fst (f v w)) = outbox w"
  shows "outbox (fst (bind_action m f w)) = outbox w"
proof (cases "m w")
  case (Pair w1 r)
  with assms(1) [of w] have "outbox w1 = outbox w" by simp
  with Pair assms(2) show ?thesis
    by (cases r) (simp_all add: bind_action_def)
qed

lemma return_action_outbox: "outbox (fst (return_action v w)) = outbox w"
  by (simp add: return_action_def)

lemma delegate_outbox: "outbox (fst (delegate g w)) = outbox w"
  by (simp add: delegate_def split: sum.splits)

lemma delegate_Inr:
  "delegate g w = (w', Inr u) \<longleftrightarrow> (\<exists>d. g (db w) = Inr d \<and> w' = w\<lparr>db := d\<rparr>)"
  by (auto simp: delegate_def split: sum.splits)

lemma delegate_fails: "\<forall>d. isl (g d) \<Longrightarrow> isl (snd (delegate g w))"
proof -
  assume "\<forall>d. isl (g d)"
  then have "isl (g (db w))" by blast
  then show ?thesis
    by (cases "g (db w)") (simp_all add: delegate_def)
qed

lemma ZulipSponsorshipRequest_save_outbox:
  "outbox (fst (ZulipSponsorshipRequest_save dj row w)) = outbox w"
  by (simp add: ZulipSponsorshipRequest_save_def Let_def split: option.splits)

lemma ZulipSponsorshipRequest_save_Inr:
  "ZulipSponsorshipRequest_save dj row w = (w', Inr u) \<longleftrightarrow>
     orm_fault dj (SaveSponsorshipRequest row) = None
     \<and> w' = w\<lparr>orm_calls := orm_calls w @ [SaveSponsorshipRequest row],
              db := (db w)\<lparr>sponsorship_requests := sponsorship_requests (db w) @ [row]\<rparr>\<rparr>"
  by (auto simp: ZulipSponsorshipRequest_save_def Let_def split: option.splits)

lemma ZulipSponsorshipRequest_save_fails:
  "orm_fault dj (SaveSponsorshipRequest row) \<noteq> None
     \<Longrightarrow> isl (snd (ZulipSponsorshipRequest_save dj row w))"
  by (auto simp: ZulipSponsorshipRequest_save_def Let_def)

lemma ZulipSponsorshipRequest_save_realms:
  "ZulipSponsorshipRequest_save dj row w = (w', r) \<Longrightarrow> realms (db w') = realms (db w)"
  by (auto simp: ZulipSponsorshipRequest_save_def Let_def split: option.splits)

lemma Realm_save_outbox: "outbox (fst (Realm_save dj obj update_fields w)) = outbox w"
  by (simp add: Realm_save_def Let_def split: option.splits)

lemma Realm_save_org_type_Inr:
  "Realm_save dj obj [''org_type''] w = (w', Inr u) \<longleftrightarrow>
     orm_fault dj (SaveRealm (realm_id obj) [''org_type'']) = None
     \<and> (\<exists>row. realms (db w) (realm_id obj) = Some row
          \<and> w' = w\<lparr>orm_calls := orm_calls w @ [SaveRealm (realm_id obj) [''org_type'']],
                   db := (db w)\<lparr>realms := (realms (db w))(realm_id obj \<mapsto>
                           row\<lparr>realm_org_type := realm_org_type obj\<rparr>)\<rparr>\<rparr>)"
  by (auto simp: Realm_save_def Let_def set_column_def split: option.splits)

lemma Realm_save_fails:
  "orm_fault dj (SaveRealm (realm_id obj) update_fields) \<noteq> None
     \<or> realms (db w) (realm_id obj) = None
     \<Longrightarrow> isl (snd (Realm_save dj obj update_fields w))"
  by (auto simp: Realm_save_def Let_def split: option.splits)

subsection \<open>The block of sponsorship\<close>

lemma sponsorship_block_outbox:
  "outbox (fst (sponsorship_block dj zv co user cleaned w)) = outbox w"
  unfolding sponsorship_block_def Let_def
  by (intro bind_action_outbox ZulipSponsorshipRequest_save_outbox delegate_outbox
        return_action_outbox)
     (simp_all add: Realm_save_outbox return_action_outbox)

lemma sponsorship_block_successE:
  assumes "sponsorship_block dj zv co user cleaned w = (w', Inr name)"
  obtains w1 w2 d3 d4 where
    "orm_fault dj (SaveSponsorshipRequest (new_sponsorship_request user cleaned)) = None"
    "w1 = w\<lparr>orm_calls := orm_calls w @ [SaveSponsorshipRequest (new_sponsorship_request user cleaned)],
             db := (db w)\<lparr>sponsorship_requests :=
                     sponsorship_requests (db w) @ [new_sponsorship_request user cleaned]\<rparr>\<rparr>"
    "realm_org_type (realm user) = cd_organization_type cleaned \<longrightarrow> w2 = w1"
    "realm_org_type (realm user) \<noteq> cd_organization_type cleaned \<longrightarrow>
       (\<exists>row. realms (db w1) (realm_id (realm user)) = Some row
          \<and> w2 = w1\<lparr>orm_calls := orm_calls w1 @ [SaveRealm (realm_id (realm user)) [''org_type'']],
                   db := (db w1)\<lparr>realms := (realms (db w1))(realm_id (realm user) \<mapsto>
                           row\<lparr>realm_org_type := cd_organization_type cleaned\<rparr>)\<rparr>\<rparr>)"
    "update_customer_sponsorship_status co user True (db w2) = Inr d3"
    "do_make_user_billing_admin zv user d3 = Inr d4"
    "w' = w2\<lparr>db := d4\<rparr>"
    "name = get_org_type_display_name zv (cd_organization_type cleaned)"
proof -
  let ?t = "cd_organization_type cleaned"
  from assms obtain w1 w2 w3 where
    s1: "ZulipSponsorshipRequest_save dj (new_sponsorship_request user cleaned) w = (w1, Inr ())"
    and s2: "(if realm_org_type (realm user) \<noteq> ?t
              then Realm_save dj ((realm user)\<lparr>realm_org_type := ?t\<rparr>) [''org_type'']
              else return_action ()) w1 = (w2, Inr ())"
    and s3: "delegate (update_customer_sponsorship_status co user True) w2 = (w3, Inr ())"
    and s4: "delegate (do_make_user_billing_admin zv user) w3 = (w', Inr ())"
    and n: "name = get_org_type_display_name zv ?t"
    unfolding sponsorship_block_def Let_def bind_action_Inr return_action_def by auto
  from s3 obtain d3 where d3: "update_customer_sponsorship_status co user True (db w2) = Inr d3"
    and w3: "w3 = w2\<lparr>db := d3\<rparr>"
    unfolding delegate_Inr by blast
  from s4 w3 obtain d4 where d4: "do_make_user_billing_admin zv user d3 = Inr d4"
    and w': "w' = w2\<lparr>db := d4\<rparr>"
    unfolding delegate_Inr by auto
  from s2 have eq: "realm_org_type (realm user) = ?t \<longrightarrow> w2 = w1"
    by (auto simp: return_action_def split: if_splits)
  from s2 have ne: "realm_org_type (realm user) \<noteq> ?t \<longrightarrow>
       (\<exists>row. realms (db w1) (realm_id (realm user)) = Some row
          \<and> w2 = w1\<lparr>orm_calls := orm_calls w1 @ [SaveRealm (realm_id (realm user)) [''org_type'']],
                   db := (db w1)\<lparr>realms := (realms (db w1))(realm_id (realm user) \<mapsto>
                           row\<lparr>realm_org_type := ?t\<rparr>)\<rparr>\<rparr>)"
    by (auto simp: Realm_save_org_type_Inr split: if_splits)
  from s1 [unfolded ZulipSponsorshipRequest_save_Inr] eq ne d3 d4 w' n show ?thesis
    by (intro that [of w1 w2 d3 d4]) simp_all
qed

lemma sponsorship_block_success:
  assumes "sponsorship_block dj zv co user cleaned w = (w', Inr name)"
  shows "name = get_org_type_display_name zv (cd_organization_type cleaned)"
    and "orm_calls w' =
           orm_calls w @ SaveSponsorshipRequest (new_sponsorship_request user cleaned)
             # (if realm_org_type (realm user) = cd_organization_type cleaned then []
                else [SaveRealm (realm_id (realm user)) [''org_type'']])"
    and "outbox w' = outbox w"
proof -
  show "name = get_org_type_display_name zv (cd_organization_type cleaned)"
    using assms by (rule sponsorship_block_successE)
  show "orm_calls w' =
           orm_calls w @ SaveSponsorshipRequest (new_sponsorship_request user cleaned)
             # (if realm_org_type (realm user) = cd_organization_type cleaned then []
                else [SaveRealm (realm_id (realm user)) [''org_type'']])"
    using assms
  proof (rule sponsorship_block_successE)
    fix w1 w2 d3 d4
    assume w1: "w1 = w\<lparr>orm_calls := orm_calls w @ [SaveSponsorshipRequest (new_sponsorship_request user cleaned)],
             db := (db w)\<lparr>sponsorship_requests :=
                     sponsorship_requests (db w) @ [new_sponsorship_request user cleaned]\<rparr>\<rparr>"
      and eq: "realm_org_type (realm user) = cd_organization_type cleaned \<longrightarrow> w2 = w1"
      and ne: "realm_org_type (realm user) \<noteq> cd_organization_type cleaned \<longrightarrow>
       (\<exists>row. realms (db w1) (realm_id (realm user)) = Some row
          \<and> w2 = w1\<lparr>orm_calls := orm_calls w1 @ [SaveRealm (realm_id (realm user)) [''org_type'']],
                   db := (db w1)\<lparr>realms := (realms (db w1))(realm_id (realm user) \<mapsto>
                           row\<lparr>realm_org_type := cd_organization_type cleaned\<rparr>)\<rparr>\<rparr>)"
      and w': "w' = w2\<lparr>db := d4\<rparr>"
    show ?thesis
    proof (cases "realm_org_type (realm user) = cd_organization_type cleaned")
      case True
      with eq w1 w' show ?thesis by simp
    next
      case False
      with ne obtain row where
        "w2 = w1\<lparr>orm_calls := orm_calls w1 @ [SaveRealm (realm_id (realm user)) [''org_type'']],
                 db := (db w1)\<lparr>realms := (realms (db w1))(realm_id (realm user) \<mapsto>
                         row\<lparr>realm_org_type := cd_organization_type cleaned\<rparr>)\<rparr>\<rparr>"
        by blast
      with False w1 w' show ?thesis by simp
    qed
  qed
  show "outbox w' = outbox w"
    using sponsorship_block_outbox [of dj zv co user cleaned w] assms by simp
qed

lemma sponsorship_block_realms:
  assumes "sponsorship_block dj zv co user cleaned w = (w', Inr name)"
    and "\<forall>d d'. update_customer_sponsorship_status co user True d = Inr d' \<longrightarrow> realms d' = realms d"
    and "\<forall>d d'. do_make_user_billing_admin zv user d = Inr d' \<longrightarrow> realms d' = realms d"
  shows "(realm_org_type (realm user) = cd_organization_type cleaned
            \<longrightarrow> realms (db w') = realms (db w))
         \<and> (realm_org_type (realm user) \<noteq> cd_organization_type cleaned
            \<longrightarrow> (\<exists>row. realms (db w) (realm_id (realm user)) = Some row
                  \<and> realms (db w') =
                      (realms (db w))(realm_id (realm user) \<mapsto>
                         row\<lparr>realm_org_type := cd_organization_type cleaned\<rparr>)))"
  using assms(1)
proof (rule sponsorship_block_successE)
    fix w1 w2 d3 d4
    assume w1: "w1 = w\<lparr>orm_calls := orm_calls w @ [SaveSponsorshipRequest (new_sponsorship_request user cleaned)],
             db := (db w)\<lparr>sponsorship_requests :=
                     sponsorship_requests (db w) @ [new_sponsorship_request user cleaned]\<rparr>\<rparr>"
      and eq: "realm_org_type (realm user) = cd_organization_type cleaned \<longrightarrow> w2 = w1"
      and ne: "realm_org_type (realm user) \<noteq> cd_organization_type cleaned \<longrightarrow>
       (\<exists>row. realms (db w1) (realm_id (realm user)) = Some row
          \<and> w2 = w1\<lparr>orm_calls := orm_calls w1 @ [SaveRealm (realm_id (realm user)) [''org_type'']],
                   db := (db w1)\<lparr>realms := (realms (db w1))(realm_id (realm user) \<mapsto>
                           row\<lparr>realm_org_type := cd_organization_type cleaned\<rparr>)\<rparr>\<rparr>)"
      and d3: "update_customer_sponsorship_status co user True (db w2) = Inr d3"
      and d4: "do_make_user_billing_admin zv user d3 = Inr d4"
      and w': "w' = w2\<lparr>db := d4\<rparr>"
  from d3 d4 assms(2,3) have "realms d4 = realms (db w2)" by metis
  with w' have final: "realms (db w') = realms (db w2)" by simp
  show ?thesis
  proof (cases "realm_org_type (realm user) = cd_organization_type cleaned")
    case True
    with eq w1 final show ?thesis by simp
  next
    case False
    with ne obtain row where row: "realms (db w1) (realm_id (realm user)) = Some row"
      and w2: "w2 = w1\<lparr>orm_calls := orm_calls w1 @ [SaveRealm (realm_id (realm user)) [''org_type'']],
                 db := (db w1)\<lparr>realms := (realms (db w1))(realm_id (realm user) \<mapsto>
                         row\<lparr>realm_org_type := cd_organization_type cleaned\<rparr>)\<rparr>\<rparr>"
      by blast
    from w1 have "realms (db w1) = realms (db w)" by simp
    with row w2 final False show ?thesis by simp
  qed
qed

lemma sponsorship_block_requests:
  assumes "sponsorship_block dj zv co user cleaned w = (w', Inr name)"
    and "\<forall>d d'. update_customer_sponsorship_status co user True d = Inr d'
           \<longrightarrow> sponsorship_requests d' = sponsorship_requests d"
    and "\<forall>d d'. do_make_user_billing_admin zv user d = Inr d'
           \<longrightarrow> sponsorship_requests d' = sponsorship_requests d"
  shows "sponsorship_requests (db w') =
           sponsorship_requests (db w) @ [new_sponsorship_request user cleaned]"
  using assms(1)
proof (rule sponsorship_block_successE)
    fix w1 w2 d3 d4
    assume w1: "w1 = w\<lparr>orm_calls := orm_calls w @ [SaveSponsorshipRequest (new_sponsorship_request user cleaned)],
             db := (db w)\<lparr>sponsorship_requests :=
                     sponsorship_requests (db w) @ [new_sponsorship_request user cleaned]\<rparr>\<rparr>"
      and eq: "realm_org_type (realm user) = cd_organization_type cleaned \<longrightarrow> w2 = w1"
      and ne: "realm_org_type (realm user) \<noteq> cd_organization_type cleaned \<longrightarrow>
       (\<exists>row. realms (db w1) (realm_id (realm user)) = Some row
          \<and> w2 = w1\<lparr>orm_calls := orm_calls w1 @ [SaveRealm (realm_id (realm user)) [''org_type'']],
                   db := (db w1)\<lparr>realms := (realms (db w1))(realm_id (realm user) \<mapsto>
                           row\<lparr>realm_org_type := cd_organization_type cleaned\<rparr>)\<rparr>\<rparr>)"
      and d3: "update_customer_sponsorship_status co user True (db w2) = Inr d3"
      and d4: "do_make_user_billing_admin zv user d3 = Inr d4"
      and w': "w' = w2\<lparr>db := d4\<rparr>"
  from d3 d4 assms(2,3) have "sponsorship_requests d4 = sponsorship_requests (db w2)" by metis
  with w' have final: "sponsorship_requests (db w') = sponsorship_requests (db w2)" by simp
  show ?thesis
  proof (cases "realm_org_type (realm user) = cd_organization_type cleaned")
    case True
    with eq w1 final show ?thesis by simp
  next
    case False
    with ne obtain row where
      w2: "w2 = w1\<lparr>orm_calls := orm_calls w1 @ [SaveRealm (realm_id (realm user)) [''org_type'']],
                 db := (db w1)\<lparr>realms := (realms (db w1))(realm_id (realm user) \<mapsto>
                         row\<lparr>realm_org_type := cd_organization_type cleaned\<rparr>)\<rparr>\<rparr>"
      by blast
    with w1 final show ?thesis by simp
  qed
qed

lemma sponsorship_block_fails:
  assumes "orm_fault dj (SaveSponsorshipRequest (new_sponsorship_request user cleaned)) \<noteq> None
       \<or> (realm_org_type (realm user) \<noteq> cd_organization_type cleaned
            \<and> (orm_fault dj (SaveRealm (realm_id (realm user)) [''org_type'']) \<noteq> None
                \<or> realms (db w) (realm_id (realm user)) = None))
       \<or> (\<forall>d. isl (update_customer_sponsorship_status co user True d))
       \<or> (\<forall>d. isl (do_make_user_billing_admin zv user d))"
  shows "isl (snd (sponsorship_block dj zv co user cleaned w))"
proof -
  let ?t = "cd_organization_type cleaned"
  let ?k4 = "\<lambda>_::unit. return_action (get_org_type_display_name zv ?t)"
  let ?s4 = "bind_action (delegate (do_make_user_billing_admin zv user)) ?k4"
  let ?s3 = "bind_action (delegate (update_customer_sponsorship_status co user True)) (\<lambda>_. ?s4)"
  let ?m2 = "if realm_org_type (realm user) \<noteq> ?t
             then Realm_save dj ((realm user)\<lparr>realm_org_type := ?t\<rparr>) [''org_type'']
             else return_action ()"
  let ?s2 = "bind_action ?m2 (\<lambda>_. ?s3)"
  let ?m1 = "ZulipSponsorshipRequest_save dj (new_sponsorship_request user cleaned)"
  have block: "sponsorship_block dj zv co user cleaned = bind_action ?m1 (\<lambda>_. ?s2)"
    by (simp add: sponsorship_block_def Let_def)
  consider
      (save) "orm_fault dj (SaveSponsorshipRequest (new_sponsorship_request user cleaned)) \<noteq> None"
    | (realm) "realm_org_type (realm user) \<noteq> ?t"
        "orm_fault dj (SaveRealm (realm_id (realm user)) [''org_type'']) \<noteq> None
         \<or> realms (db w) (realm_id (realm user)) = None"
    | (pending) "\<forall>d. isl (update_customer_sponsorship_status co user True d)"
    | (grant) "\<forall>d. isl (do_make_user_billing_admin zv user d)"
    using assms by (elim disjE conjE) simp_all
  then have "isl (snd (bind_action ?m1 (\<lambda>_. ?s2) w))"
  proof cases
    case save
    then show ?thesis
      by (intro bind_action_fails_left ZulipSponsorshipRequest_save_fails)
  next
    case realm
    have "isl (snd (?s2 w'))" if "?m1 w = (w', Inr v)" for w' v
    proof -
      have "realms (db w') = realms (db w)"
        using that by (rule ZulipSponsorshipRequest_save_realms)
      with realm have "isl (snd (?m2 w'))"
        by (simp add: Realm_save_fails)
      then show ?thesis by (rule bind_action_fails_left)
    qed
    then show ?thesis by (rule bind_action_fails_right)
  next
    case pending
    have s3: "isl (snd (?s3 w'))" for w'
      by (intro bind_action_fails_left delegate_fails pending)
    have s2: "isl (snd (?s2 w'))" for w'
      by (rule bind_action_fails_right) (rule s3)
    show ?thesis by (rule bind_action_fails_right) (rule s2)
  next
    case grant
    have s4: "isl (snd (?s4 w'))" for w'
      by (intro bind_action_fails_left delegate_fails grant)
    have s3: "isl (snd (?s3 w'))" for w'
      by (rule bind_action_fails_right) (rule s4)
    have s2: "isl (snd (?s2 w'))" for w'
      by (rule bind_action_fails_right) (rule s3)
    show ?thesis by (rule bind_action_fails_right) (rule s2)
  qed
  with block show ?thesis by simp
qed


lemma sponsorship_valid_form:
  assumes "is_organization_member zv user"
    and "sponsorship_request_variables post =
           Inr (organization_type, website, description, expected_total_users,
                paid_users_count, paid_users_description)"
    and "RealmBillingSession co user = None"
    and "SponsorshipRequestForm dj co (post(''organization_type'' \<mapsto> organization_type)) = Inr cleaned"
  shows "sponsorship dj zv co user post w =
           bind_action (atomic (sponsorship_block dj zv co user cleaned))
             (\<lambda>org_type_display_name.
                bind_action
                  (send_email zv
                     (sponsorship_email zv co user org_type_display_name website description
                        expected_total_users paid_users_count paid_users_description))
                  (\<lambda>_. return_action (JsonSuccess []))) w"
  using assms by (simp add: sponsorship_def sponsorship_body_def)

lemma bind_action_raises_iff:
  "isl (snd (bind_action m f w)) \<longleftrightarrow>
     isl (snd (m w)) \<or> (\<exists>w1 v. m w = (w1, Inr v) \<and> isl (snd (f v w1)))"
  by (cases "m w") (auto simp: bind_action_def isl_def split: sum.splits)

text \<open>
  The block raises exactly when one of its four steps raises in the world the steps
  before it have left.
\<close>

lemma sponsorship_block_raises_iff:
  "isl (snd (sponsorship_block dj zv co user cleaned w)) \<longleftrightarrow>
     isl (snd (ZulipSponsorshipRequest_save dj (new_sponsorship_request user cleaned) w))
     \<or> (\<exists>w1. ZulipSponsorshipRequest_save dj (new_sponsorship_request user cleaned) w
                 = (w1, Inr ())
          \<and> (isl (snd ((if realm_org_type (realm user) \<noteq> cd_organization_type cleaned
                         then Realm_save dj
                                ((realm user)\<lparr>realm_org_type := cd_organization_type cleaned\<rparr>)
                                [''org_type'']
                         else return_action ()) w1))
              \<or> (\<exists>w2. (if realm_org_type (realm user) \<noteq> cd_organization_type cleaned
                          then Realm_save dj
                                 ((realm user)\<lparr>realm_org_type := cd_organization_type cleaned\<rparr>)
                                 [''org_type'']
                          else return_action ()) w1 = (w2, Inr ())
                   \<and> (isl (snd (delegate (update_customer_sponsorship_status co user True) w2))
                       \<or> (\<exists>w3. delegate (update_customer_sponsorship_status co user True) w2
                                   = (w3, Inr ())
                            \<and> isl (snd (delegate (do_make_user_billing_admin zv user) w3)))))))"
  unfolding sponsorship_block_def Let_def bind_action_raises_iff
  by (simp add: return_action_def)

text \<open>
  C1. When the form is valid and the block under \<open>transaction.atomic()\<close> raises, that
  is when any of its steps raises in the course of the call (the save of the request,
  the save of the realm's \<open>org_type\<close>, the mutation of the sponsorship status, or the
  grant of the billing administrator role), \<open>sponsorship\<close> raises and the store after
  the call is the store before it: no request row, no \<open>org_type\<close>, no pending flag; and
  no message is sent.
\<close>

theorem sponsorship_atomic_rollback:
  assumes "is_organization_member zv user"
    and "sponsorship_request_variables post =
           Inr (organization_type, website, description, expected_total_users,
                paid_users_count, paid_users_description)"
    and "RealmBillingSession co user = None"
    and "SponsorshipRequestForm dj co (post(''organization_type'' \<mapsto> organization_type)) = Inr cleaned"
    and "isl (snd (sponsorship_block dj zv co user cleaned w))"
  shows "isl (snd (sponsorship dj zv co user post w))
         \<and> db (fst (sponsorship dj zv co user post w)) = db w
         \<and> outbox (fst (sponsorship dj zv co user post w)) = outbox w"
proof -
  let ?block = "sponsorship_block dj zv co user cleaned"
  from assms(5) obtain w' e where block: "?block w = (w', Inl e)"
    by (cases "?block w") (auto simp: isl_def)
  have "outbox w' = outbox w"
    using sponsorship_block_outbox [of dj zv co user cleaned w] block by simp
  with block show ?thesis
    by (simp add: sponsorship_valid_form [OF assms(1-4)] bind_action_def atomic_def)
qed

text \<open>
  The grant of \<open>example_zerver_grant_raises\<close> returns on the store before the call and
  raises in the call, after the request row, the \<open>org_type\<close> and the pending flag have
  been written: none of them is in the store after the call.
\<close>

theorem sponsorship_atomic_rollback_witness:
  "do_make_user_billing_admin example_zerver_grant_raises example_user (db example_world)
     = Inr ((db example_world)\<lparr>billing_admins := {7}\<rparr>)
   \<and> snd (sponsorship example_django example_zerver_grant_raises example_corporate
            example_user example_sponsorship_post example_world)
       = Inl (OtherException ''grant failed'')
   \<and> db (fst (sponsorship example_django example_zerver_grant_raises example_corporate
            example_user example_sponsorship_post example_world))
       = db example_world"
proof -
  let ?zv = example_zerver_grant_raises
  let ?cleaned = "\<lparr>cd_website = [], cd_organization_type = 20, cd_description = ''A school'',
                   cd_expected_total_users = ''40'', cd_paid_users_count = ''0'',
                   cd_paid_users_description = []\<rparr>"
  let ?run = "sponsorship example_django ?zv example_corporate example_user
                example_sponsorship_post example_world"
  have member: "is_organization_member ?zv example_user"
    by (simp add: example_zerver_grant_raises_def example_defs)
  have vars: "sponsorship_request_variables example_sponsorship_post =
                Inr (''20'', [], '' A school '', ''40'', ''0'', [])"
    by (simp add: sponsorship_request_variables_def request_defs example_defs)
  have session: "RealmBillingSession example_corporate example_user = None"
    by (simp add: example_defs)
  have valid: "SponsorshipRequestForm example_django example_corporate
                 (example_sponsorship_post(''organization_type'' \<mapsto> ''20'')) = Inr ?cleaned"
    by (simp add: form_defs example_defs)
  have raises: "snd (sponsorship_block example_django ?zv example_corporate example_user
                       ?cleaned example_world) = Inl (OtherException ''grant failed'')"
    by (simp add: block_defs new_sponsorship_request_def set_column_def
          example_zerver_grant_raises_def example_defs)
  then have fails: "isl (snd (sponsorship_block example_django ?zv example_corporate
                               example_user ?cleaned example_world))"
    by simp
  note fact = sponsorship_atomic_rollback [OF member vars session valid fails]
  have grant: "do_make_user_billing_admin ?zv example_user (db example_world)
                 = Inr ((db example_world)\<lparr>billing_admins := {7}\<rparr>)"
    by (simp add: example_zerver_grant_raises_def example_defs)
  have error: "snd ?run = Inl (OtherException ''grant failed'')"
  proof -
    let ?block = "sponsorship_block example_django ?zv example_corporate example_user
                    ?cleaned example_world"
    from raises obtain w1 where "?block = (w1, Inl (OtherException ''grant failed''))"
      by (cases ?block) simp
    then show ?thesis
      by (simp add: sponsorship_valid_form [OF member vars session valid] bind_action_def
            atomic_def)
  qed
  from grant error fact [THEN conjunct2, THEN conjunct1] show ?thesis
    by (intro conjI)
qed

lemma join_contains: "m \<in> set xs \<Longrightarrow> sublist m (join sep xs)"
proof (induction sep xs rule: join.induct)
  case (1 sep)
  then show ?case by simp
next
  case (2 sep x)
  then show ?case by simp
next
  case (3 sep x y ys)
  show ?case
  proof (cases "m = x")
    case True
    then show ?thesis by (simp add: sublist_append_rightI)
  next
    case False
    with 3 have "sublist m (join sep (y # ys))" by simp
    then obtain ps ss where "join sep (y # ys) = ps @ m @ ss"
      by (auto simp: sublist_def)
    then have "join sep (x # y # ys) = (x @ sep @ ps) @ m @ ss" by simp
    then show ?thesis unfolding sublist_def by blast
  qed
qed

lemma sponsorship_request_variables_Inr:
  assumes "sponsorship_request_variables post =
             Inr (organization_type, website, description, expected_total_users,
                  paid_users_count, paid_users_description)"
  shows "post ''organization-type'' = Some organization_type"
    and "post ''website'' = Some website"
    and "post ''description'' = Some description"
    and "post ''expected_total_users'' = Some expected_total_users"
    and "post ''paid_users_count'' = Some paid_users_count"
    and "post ''paid_users_description'' = Some paid_users_description"
  using assms
  by (auto simp: sponsorship_request_variables_def then_do_def REQ_def split: option.splits)

lemma form_field_data:
  assumes "sponsorship_request_variables post =
             Inr (organization_type, website, description, expected_total_users,
                  paid_users_count, paid_users_description)"
  shows "field_data (post(''organization_type'' \<mapsto> organization_type)) ''website'' = website"
    and "field_data (post(''organization_type'' \<mapsto> organization_type)) ''organization_type''
           = organization_type"
    and "field_data (post(''organization_type'' \<mapsto> organization_type)) ''description''
           = description"
    and "field_data (post(''organization_type'' \<mapsto> organization_type)) ''expected_total_users''
           = expected_total_users"
    and "field_data (post(''organization_type'' \<mapsto> organization_type)) ''paid_users_count''
           = paid_users_count"
    and "field_data (post(''organization_type'' \<mapsto> organization_type)) ''paid_users_description''
           = paid_users_description"
  using sponsorship_request_variables_Inr [OF assms] by (simp_all add: field_data_def)

lemma form_errors:
  assumes "SponsorshipRequestForm dj co post_data = Inl errors"
  shows "errors =
           field_errors ''website''
             (URLField_clean dj (MAX_ORG_URL_LENGTH co) False (field_data post_data ''website''))
           @ field_errors ''organization_type''
               (IntegerField_clean dj (field_data post_data ''organization_type''))
           @ field_errors ''description''
               (CharField_clean dj True (field_data post_data ''description''))
           @ field_errors ''expected_total_users''
               (CharField_clean dj True (field_data post_data ''expected_total_users''))
           @ field_errors ''paid_users_count''
               (CharField_clean dj True (field_data post_data ''paid_users_count''))
           @ field_errors ''paid_users_description''
               (CharField_clean dj False (field_data post_data ''paid_users_description''))"
  using assms by (simp add: SponsorshipRequestForm_def Let_def split: sum.splits)

lemma field_errors_concat:
  "concat (map snd (field_errors name r)) = (case r of Inl es \<Rightarrow> es | Inr _ \<Rightarrow> [])"
  by (simp add: field_errors_def split: sum.splits)

text \<open>
  C2. When the form is not valid, \<open>sponsorship\<close> leaves the world as it was and raises
  one \<open>BillingError\<close> whose description is \<open>Form validation error\<close> and whose message
  contains every message of every field that failed.
\<close>

theorem sponsorship_invalid_form_aggregated:
  assumes "is_organization_member zv user"
    and "sponsorship_request_variables post =
           Inr (organization_type, website, description, expected_total_users,
                paid_users_count, paid_users_description)"
    and "RealmBillingSession co user = None"
    and "isl (SponsorshipRequestForm dj co (post(''organization_type'' \<mapsto> organization_type)))"
  shows "\<exists>message.
           sponsorship dj zv co user post w =
             (w, Inl (BillingError ''Form validation error'' message))
           \<and> (\<forall>es. URLField_clean dj (MAX_ORG_URL_LENGTH co) False website = Inl es
                  \<longrightarrow> (\<forall>m \<in> set es. sublist m message))
           \<and> (\<forall>es. IntegerField_clean dj organization_type = Inl es
                  \<longrightarrow> (\<forall>m \<in> set es. sublist m message))
           \<and> (\<forall>es. CharField_clean dj True description = Inl es
                  \<longrightarrow> (\<forall>m \<in> set es. sublist m message))
           \<and> (\<forall>es. CharField_clean dj True expected_total_users = Inl es
                  \<longrightarrow> (\<forall>m \<in> set es. sublist m message))
           \<and> (\<forall>es. CharField_clean dj True paid_users_count = Inl es
                  \<longrightarrow> (\<forall>m \<in> set es. sublist m message))
           \<and> (\<forall>es. CharField_clean dj False paid_users_description = Inl es
                  \<longrightarrow> (\<forall>m \<in> set es. sublist m message))"
proof -
  let ?pd = "post(''organization_type'' \<mapsto> organization_type)"
  from assms(4) obtain errors where invalid: "SponsorshipRequestForm dj co ?pd = Inl errors"
    by (cases "SponsorshipRequestForm dj co ?pd") simp_all
  let ?message = "join '' '' (concat (map snd errors))"
  have result: "sponsorship dj zv co user post w =
                  (w, Inl (BillingError ''Form validation error'' ?message))"
    using assms(1-3) invalid by (simp add: sponsorship_def sponsorship_body_def)
  have errors: "concat (map snd errors) =
      concat (map snd (field_errors ''website''
                 (URLField_clean dj (MAX_ORG_URL_LENGTH co) False website)))
      @ concat (map snd (field_errors ''organization_type''
                 (IntegerField_clean dj organization_type)))
      @ concat (map snd (field_errors ''description'' (CharField_clean dj True description)))
      @ concat (map snd (field_errors ''expected_total_users''
                 (CharField_clean dj True expected_total_users)))
      @ concat (map snd (field_errors ''paid_users_count''
                 (CharField_clean dj True paid_users_count)))
      @ concat (map snd (field_errors ''paid_users_description''
                 (CharField_clean dj False paid_users_description)))"
    using form_errors [OF invalid] by (simp add: form_field_data [OF assms(2)])
  have contained: "sublist m ?message" if "m \<in> set (concat (map snd errors))" for m
    using that by (rule join_contains)
  have "\<forall>es. URLField_clean dj (MAX_ORG_URL_LENGTH co) False website = Inl es
           \<longrightarrow> (\<forall>m \<in> set es. sublist m ?message)"
    by (intro allI impI ballI contained) (simp add: errors field_errors_concat)
  moreover have "\<forall>es. IntegerField_clean dj organization_type = Inl es
           \<longrightarrow> (\<forall>m \<in> set es. sublist m ?message)"
    by (intro allI impI ballI contained) (simp add: errors field_errors_concat)
  moreover have "\<forall>es. CharField_clean dj True description = Inl es
           \<longrightarrow> (\<forall>m \<in> set es. sublist m ?message)"
    by (intro allI impI ballI contained) (simp add: errors field_errors_concat)
  moreover have "\<forall>es. CharField_clean dj True expected_total_users = Inl es
           \<longrightarrow> (\<forall>m \<in> set es. sublist m ?message)"
    by (intro allI impI ballI contained) (simp add: errors field_errors_concat)
  moreover have "\<forall>es. CharField_clean dj True paid_users_count = Inl es
           \<longrightarrow> (\<forall>m \<in> set es. sublist m ?message)"
    by (intro allI impI ballI contained) (simp add: errors field_errors_concat)
  moreover have "\<forall>es. CharField_clean dj False paid_users_description = Inl es
           \<longrightarrow> (\<forall>m \<in> set es. sublist m ?message)"
    by (intro allI impI ballI contained) (simp add: errors field_errors_concat)
  ultimately show ?thesis using result by blast
qed


theorem sponsorship_invalid_form_aggregated_witness:
  "\<exists>message.
     sponsorship example_django example_zerver example_corporate example_user
       (example_sponsorship_post(''organization-type'' \<mapsto> ''x'', ''description'' \<mapsto> ''  ''))
       example_world
     = (example_world, Inl (BillingError ''Form validation error'' message))
     \<and> sublist ''Enter a whole number.'' message
     \<and> sublist ''This field is required.'' message"
proof -
  let ?post = "example_sponsorship_post(''organization-type'' \<mapsto> ''x'', ''description'' \<mapsto> ''  '')"
  have member: "is_organization_member example_zerver example_user"
    by (simp add: example_defs)
  have vars: "sponsorship_request_variables ?post = Inr (''x'', [], ''  '', ''40'', ''0'', [])"
    by (simp add: sponsorship_request_variables_def request_defs example_defs)
  have session: "RealmBillingSession example_corporate example_user = None"
    by (simp add: example_defs)
  have number: "IntegerField_clean example_django ''x'' = Inl [''Enter a whole number.'']"
    by (simp add: IntegerField_clean_def example_defs)
  have required: "CharField_clean example_django True ''  '' = Inl [''This field is required.'']"
    by (simp add: CharField_clean_def CharField_to_python_def example_defs)
  have invalid: "isl (SponsorshipRequestForm example_django example_corporate
                        (?post(''organization_type'' \<mapsto> ''x'')))"
    by (simp add: form_defs example_defs)
  from sponsorship_invalid_form_aggregated [OF member vars session invalid, of example_world]
  obtain message where
    "sponsorship example_django example_zerver example_corporate example_user ?post example_world
       = (example_world, Inl (BillingError ''Form validation error'' message))"
    and "\<forall>es. IntegerField_clean example_django ''x'' = Inl es \<longrightarrow> (\<forall>m \<in> set es. sublist m message)"
    and "\<forall>es. CharField_clean example_django True ''  '' = Inl es \<longrightarrow> (\<forall>m \<in> set es. sublist m message)"
    by blast
  with number required show ?thesis by simp
qed

lemma sponsorship_success:
  assumes "is_organization_member zv user"
    and "sponsorship_request_variables post =
           Inr (organization_type, website, description, expected_total_users,
                paid_users_count, paid_users_description)"
    and "RealmBillingSession co user = None"
    and "SponsorshipRequestForm dj co (post(''organization_type'' \<mapsto> organization_type)) = Inr cleaned"
    and "sponsorship dj zv co user post w = (w', Inr r)"
  obtains w1 name where
    "sponsorship_block dj zv co user cleaned w = (w1, Inr name)"
    "send_email_fault zv (sponsorship_email zv co user name website description
        expected_total_users paid_users_count paid_users_description) = None"
    "w' = w1\<lparr>outbox := outbox w1 @ [sponsorship_email zv co user name website description
        expected_total_users paid_users_count paid_users_description]\<rparr>"
    "r = JsonSuccess []"
  using assms(5) unfolding sponsorship_valid_form [OF assms(1-4)]
  by (auto simp: bind_action_def atomic_def send_email_def return_action_def
        split: prod.splits sum.splits option.splits)

lemmas sponsorship_eval_defs =
  sponsorship_def sponsorship_body_def sponsorship_request_variables_def request_defs
  form_defs block_defs atomic_def send_email_def sponsorship_email_def
  new_sponsorship_request_def set_column_def

lemma atomic_Inr: "block w = (w1, Inr v) \<Longrightarrow> atomic block w = (w1, Inr v)"
  by (simp add: atomic_def)

lemma bind_action_Inr_eq: "m w = (w1, Inr u) \<Longrightarrow> bind_action m f w = f u w1"
  by (simp add: bind_action_def)



lemma send_email_sends:
  "send_email_fault zv m = None \<Longrightarrow> send_email zv m w = (w\<lparr>outbox := outbox w @ [m]\<rparr>, Inr ())"
  by (simp add: send_email_def)






lemma sponsorship_email_context:
  "map_of (email_context (sponsorship_email zv co user name website description
             expected_total_users paid_users_count paid_users_description)) ''website''
     = Some website"
  "map_of (email_context (sponsorship_email zv co user name website description
             expected_total_users paid_users_count paid_users_description)) ''description''
     = Some description"
  "map_of (email_context (sponsorship_email zv co user name website description
             expected_total_users paid_users_count paid_users_description)) ''expected_total_users''
     = Some expected_total_users"
  "map_of (email_context (sponsorship_email zv co user name website description
             expected_total_users paid_users_count paid_users_description)) ''paid_users_count''
     = Some paid_users_count"
  "map_of (email_context (sponsorship_email zv co user name website description
             expected_total_users paid_users_count paid_users_description)) ''paid_users_description''
     = Some paid_users_description"
  by (simp_all add: sponsorship_email_def)


lemma example_facts:
  "outbox example_world = []"
  "sponsorship_requests (db example_world) = []"
  "SUPPORT example_zerver = ''support@zulip.com''"
  "delivery_email example_user = ''iago@zulip.com''"
  "is_organization_member example_zerver example_user"
  "RealmBillingSession example_corporate example_user = None"
  by (simp_all add: example_defs)

lemma example_submission:
  "sponsorship_request_variables example_sponsorship_post =
     Inr (''20'', [], '' A school '', ''40'', ''0'', [])"
  "SponsorshipRequestForm example_django example_corporate
     (example_sponsorship_post(''organization_type'' \<mapsto> ''20'')) =
   Inr \<lparr>cd_website = [], cd_organization_type = 20, cd_description = ''A school'',
        cd_expected_total_users = ''40'', cd_paid_users_count = ''0'',
        cd_paid_users_description = []\<rparr>"
  "snd (sponsorship example_django example_zerver example_corporate example_user
          example_sponsorship_post example_world) = Inr (JsonSuccess [])"
  by (simp_all add: sponsorship_eval_defs example_defs)


text \<open>
  C10. In a submission that succeeds, the row added to the sponsorship requests holds
  the cleaned data of the form, and the context of the message holds the request
  variables as they were received. (The delegated mutations are taken not to write
  sponsorship requests.)
\<close>

theorem sponsorship_row_cleaned_email_raw:
  assumes "is_organization_member zv user"
    and "sponsorship_request_variables post =
           Inr (organization_type, website, description, expected_total_users,
                paid_users_count, paid_users_description)"
    and "RealmBillingSession co user = None"
    and "SponsorshipRequestForm dj co (post(''organization_type'' \<mapsto> organization_type)) = Inr cleaned"
    and "sponsorship dj zv co user post w = (w', Inr r)"
    and "\<forall>d d'. update_customer_sponsorship_status co user True d = Inr d'
           \<longrightarrow> sponsorship_requests d' = sponsorship_requests d"
    and "\<forall>d d'. do_make_user_billing_admin zv user d = Inr d'
           \<longrightarrow> sponsorship_requests d' = sponsorship_requests d"
  shows "sponsorship_requests (db w') =
           sponsorship_requests (db w) @
             [\<lparr>sr_realm = realm_id (realm user), requested_by = user_id user,
               org_website = cd_website cleaned, org_description = cd_description cleaned,
               org_type = cd_organization_type cleaned,
               sr_expected_total_users = cd_expected_total_users cleaned,
               sr_paid_users_count = cd_paid_users_count cleaned,
               sr_paid_users_description = cd_paid_users_description cleaned\<rparr>]
         \<and> map_of (email_context (last (outbox w'))) ''website'' = Some website
         \<and> map_of (email_context (last (outbox w'))) ''description'' = Some description
         \<and> map_of (email_context (last (outbox w'))) ''expected_total_users''
             = Some expected_total_users
         \<and> map_of (email_context (last (outbox w'))) ''paid_users_count'' = Some paid_users_count
         \<and> map_of (email_context (last (outbox w'))) ''paid_users_description''
             = Some paid_users_description"
proof -
  from assms(1-5) obtain w1 name where
    block: "sponsorship_block dj zv co user cleaned w = (w1, Inr name)"
    and w': "w' = w1\<lparr>outbox := outbox w1 @ [sponsorship_email zv co user name website
               description expected_total_users paid_users_count paid_users_description]\<rparr>"
    by (rule sponsorship_success)
  from w' have "db w' = db w1" by simp
  then have rows: "sponsorship_requests (db w') =
          sponsorship_requests (db w) @ [new_sponsorship_request user cleaned]"
    using sponsorship_block_requests [OF block assms(6,7)] by simp
  from w' have mail: "last (outbox w') = sponsorship_email zv co user name website
               description expected_total_users paid_users_count paid_users_description"
    by simp
  show ?thesis
    unfolding mail sponsorship_email_context rows new_sponsorship_request_def
    by (intro conjI refl)
qed

theorem sponsorship_row_cleaned_email_raw_witness:
  "map org_description (sponsorship_requests (db (fst
      (sponsorship example_django example_zerver example_corporate example_user
         example_sponsorship_post example_world)))) = [''A school'']
   \<and> map_of (email_context (last (outbox (fst
      (sponsorship example_django example_zerver example_corporate example_user
         example_sponsorship_post example_world))))) ''description'' = Some '' A school ''"
proof -
  let ?run = "sponsorship example_django example_zerver example_corporate example_user
                example_sponsorship_post example_world"
  have success: "?run = (fst ?run, Inr (JsonSuccess []))"
    using example_submission(3) by (simp add: prod_eq_iff)
  have frame1: "\<forall>d d'. update_customer_sponsorship_status example_corporate example_user True d
                  = Inr d' \<longrightarrow> sponsorship_requests d' = sponsorship_requests d"
    by (auto simp: example_corporate_def)
  have frame2: "\<forall>d d'. do_make_user_billing_admin example_zerver example_user d = Inr d'
                  \<longrightarrow> sponsorship_requests d' = sponsorship_requests d"
    by (auto simp: example_zerver_def)
  note fact = sponsorship_row_cleaned_email_raw
    [OF example_facts(5) example_submission(1) example_facts(6) example_submission(2)
        success frame1 frame2]
  from fact [THEN conjunct1] have "map org_description (sponsorship_requests (db (fst ?run)))
      = [''A school'']"
    by (simp add: example_facts(2))
  with fact [THEN conjunct2, THEN conjunct2, THEN conjunct1] show ?thesis
    by (intro conjI)
qed

lemma sponsorship_block_returns:
  assumes "orm_fault dj (SaveSponsorshipRequest (new_sponsorship_request user cleaned)) = None"
    and "realm_org_type (realm user) \<noteq> cd_organization_type cleaned \<longrightarrow>
           orm_fault dj (SaveRealm (realm_id (realm user)) [''org_type'']) = None
           \<and> realms (db w) (realm_id (realm user)) = Some stored"
    and "update_customer_sponsorship_status co user True
           (if realm_org_type (realm user) = cd_organization_type cleaned
            then (db w)\<lparr>sponsorship_requests :=
                   sponsorship_requests (db w) @ [new_sponsorship_request user cleaned]\<rparr>
            else (db w)\<lparr>sponsorship_requests :=
                   sponsorship_requests (db w) @ [new_sponsorship_request user cleaned],
                   realms := (realms (db w))(realm_id (realm user) \<mapsto>
                     stored\<lparr>realm_org_type := cd_organization_type cleaned\<rparr>)\<rparr>) = Inr d3"
    and "do_make_user_billing_admin zv user d3 = Inr d4"
  shows "\<exists>w1. sponsorship_block dj zv co user cleaned w =
                 (w1, Inr (get_org_type_display_name zv (cd_organization_type cleaned)))
              \<and> db w1 = d4"
proof (cases "realm_org_type (realm user) = cd_organization_type cleaned")
  case True
  with assms show ?thesis
    by (simp add: block_defs Let_def)
next
  case False
  with assms show ?thesis
    by (simp add: block_defs set_column_def Let_def)
qed


text \<open>
  C3. In a submission that succeeds, the view asks the mapper for the save of the request
  and, only when the realm's \<open>org_type\<close> differs from the submitted one, for one save of
  the realm with \<open>update_fields = [org_type]\<close>. When the two are equal the realm rows are
  the ones before the call; when they differ the stored row of the realm changes in its
  \<open>org_type\<close> column alone, whatever the other columns of the object in memory are. And
  the submission does succeed, with the store the grant returned, whenever the two saves
  are not refused, the row of the realm exists when it is to be saved, the two delegated
  mutations return on the stores they are handed and the message is sent. (The delegated
  mutations are taken not to write realm rows.)
\<close>

theorem sponsorship_org_type_write:
  assumes "is_organization_member zv user"
    and "sponsorship_request_variables post =
           Inr (organization_type, website, description, expected_total_users,
                paid_users_count, paid_users_description)"
    and "RealmBillingSession co user = None"
    and "SponsorshipRequestForm dj co (post(''organization_type'' \<mapsto> organization_type)) = Inr cleaned"
    and "\<forall>d d'. update_customer_sponsorship_status co user True d = Inr d' \<longrightarrow> realms d' = realms d"
    and "\<forall>d d'. do_make_user_billing_admin zv user d = Inr d' \<longrightarrow> realms d' = realms d"
  shows "(\<forall>w' r. sponsorship dj zv co user post w = (w', Inr r) \<longrightarrow>
            orm_calls w' =
              orm_calls w @ SaveSponsorshipRequest (new_sponsorship_request user cleaned)
                # (if realm_org_type (realm user) = cd_organization_type cleaned then []
                   else [SaveRealm (realm_id (realm user)) [''org_type'']])
            \<and> (realm_org_type (realm user) = cd_organization_type cleaned
                 \<longrightarrow> realms (db w') = realms (db w))
            \<and> (realm_org_type (realm user) \<noteq> cd_organization_type cleaned
                 \<longrightarrow> (\<exists>row. realms (db w) (realm_id (realm user)) = Some row
                        \<and> realms (db w') =
                            (realms (db w))(realm_id (realm user) \<mapsto>
                               row\<lparr>realm_org_type := cd_organization_type cleaned\<rparr>))))
         \<and> (\<forall>stored d3 d4.
               orm_fault dj (SaveSponsorshipRequest (new_sponsorship_request user cleaned)) = None
               \<and> (realm_org_type (realm user) \<noteq> cd_organization_type cleaned \<longrightarrow>
                    orm_fault dj (SaveRealm (realm_id (realm user)) [''org_type'']) = None
                    \<and> realms (db w) (realm_id (realm user)) = Some stored)
               \<and> update_customer_sponsorship_status co user True
                    (if realm_org_type (realm user) = cd_organization_type cleaned
                     then (db w)\<lparr>sponsorship_requests :=
                            sponsorship_requests (db w) @ [new_sponsorship_request user cleaned]\<rparr>
                     else (db w)\<lparr>sponsorship_requests :=
                            sponsorship_requests (db w) @ [new_sponsorship_request user cleaned],
                            realms := (realms (db w))(realm_id (realm user) \<mapsto>
                              stored\<lparr>realm_org_type := cd_organization_type cleaned\<rparr>)\<rparr>)
                    = Inr d3
               \<and> do_make_user_billing_admin zv user d3 = Inr d4
               \<and> send_email_fault zv
                    (sponsorship_email zv co user
                       (get_org_type_display_name zv (cd_organization_type cleaned))
                       website description expected_total_users paid_users_count
                       paid_users_description) = None
             \<longrightarrow> (\<exists>w'. sponsorship dj zv co user post w = (w', Inr (JsonSuccess []))
                        \<and> db w' = d4))"
proof (intro conjI allI impI)
  fix w' r
  assume "sponsorship dj zv co user post w = (w', Inr r)"
  with assms(1-4) obtain w1 name where
    block: "sponsorship_block dj zv co user cleaned w = (w1, Inr name)"
    and w': "w' = w1\<lparr>outbox := outbox w1 @ [sponsorship_email zv co user name website
               description expected_total_users paid_users_count paid_users_description]\<rparr>"
    by (rule sponsorship_success)
  from w' have same: "orm_calls w' = orm_calls w1" "db w' = db w1" by simp_all
  show "orm_calls w' =
          orm_calls w @ SaveSponsorshipRequest (new_sponsorship_request user cleaned)
            # (if realm_org_type (realm user) = cd_organization_type cleaned then []
               else [SaveRealm (realm_id (realm user)) [''org_type'']])"
    unfolding same using block by (rule sponsorship_block_success(2))
  show "realm_org_type (realm user) = cd_organization_type cleaned
          \<Longrightarrow> realms (db w') = realms (db w)"
    unfolding same using sponsorship_block_realms [OF block assms(5,6)] by blast
  show "realm_org_type (realm user) \<noteq> cd_organization_type cleaned
          \<Longrightarrow> \<exists>row. realms (db w) (realm_id (realm user)) = Some row
                  \<and> realms (db w') =
                      (realms (db w))(realm_id (realm user) \<mapsto>
                         row\<lparr>realm_org_type := cd_organization_type cleaned\<rparr>)"
    unfolding same using sponsorship_block_realms [OF block assms(5,6)] by blast
next
  fix stored d3 d4
  let ?name = "get_org_type_display_name zv (cd_organization_type cleaned)"
  let ?mail = "sponsorship_email zv co user ?name website description expected_total_users
                 paid_users_count paid_users_description"
  assume a: "orm_fault dj (SaveSponsorshipRequest (new_sponsorship_request user cleaned)) = None
               \<and> (realm_org_type (realm user) \<noteq> cd_organization_type cleaned \<longrightarrow>
                    orm_fault dj (SaveRealm (realm_id (realm user)) [''org_type'']) = None
                    \<and> realms (db w) (realm_id (realm user)) = Some stored)
               \<and> update_customer_sponsorship_status co user True
                    (if realm_org_type (realm user) = cd_organization_type cleaned
                     then (db w)\<lparr>sponsorship_requests :=
                            sponsorship_requests (db w) @ [new_sponsorship_request user cleaned]\<rparr>
                     else (db w)\<lparr>sponsorship_requests :=
                            sponsorship_requests (db w) @ [new_sponsorship_request user cleaned],
                            realms := (realms (db w))(realm_id (realm user) \<mapsto>
                              stored\<lparr>realm_org_type := cd_organization_type cleaned\<rparr>)\<rparr>)
                    = Inr d3
               \<and> do_make_user_billing_admin zv user d3 = Inr d4
               \<and> send_email_fault zv ?mail = None"
  then obtain w1 where
    block: "sponsorship_block dj zv co user cleaned w = (w1, Inr ?name)" and d4: "db w1 = d4"
    using sponsorship_block_returns [of dj user cleaned w stored co d3 zv d4] by blast
  from a have "send_email_fault zv ?mail = None" by blast
  then have sent: "send_email zv ?mail w1 = (w1\<lparr>outbox := outbox w1 @ [?mail]\<rparr>, Inr ())"
    by (rule send_email_sends)
  have committed: "atomic (sponsorship_block dj zv co user cleaned) w = (w1, Inr ?name)"
    using block by (rule atomic_Inr)
  have "sponsorship dj zv co user post w =
          (w1\<lparr>outbox := outbox w1 @ [?mail]\<rparr>, Inr (JsonSuccess []))"
    unfolding sponsorship_valid_form [OF assms(1-4)]
    by (simp only: return_action_def
          bind_action_Inr_eq [where m = "atomic (sponsorship_block dj zv co user cleaned)",
            OF committed]
          bind_action_Inr_eq [where m = "send_email zv ?mail", OF sent])
  with d4 show "\<exists>w'. sponsorship dj zv co user post w = (w', Inr (JsonSuccess []))
                  \<and> db w' = d4"
    by simp
qed


theorem sponsorship_org_type_write_witness:
  "snd (sponsorship example_django example_zerver example_corporate example_user
          example_sponsorship_post example_world_other_plan) = Inr (JsonSuccess [])
   \<and> orm_calls (fst (sponsorship example_django example_zerver example_corporate example_user
          example_sponsorship_post example_world_other_plan))
       = [SaveSponsorshipRequest
            \<lparr>sr_realm = 1, requested_by = 7, org_website = [], org_description = ''A school'',
             org_type = 20, sr_expected_total_users = ''40'', sr_paid_users_count = ''0'',
             sr_paid_users_description = []\<rparr>,
          SaveRealm 1 [''org_type'']]
   \<and> realms (db (fst (sponsorship example_django example_zerver example_corporate example_user
          example_sponsorship_post example_world_other_plan))) 1
       = Some \<lparr>realm_id = 1, string_id = ''zulip'', realm_org_type = 20, plan_type = 3,
               demo_organization_scheduled_deletion_date = None\<rparr>"
proof -
  let ?cleaned = "\<lparr>cd_website = [], cd_organization_type = 20, cd_description = ''A school'',
                   cd_expected_total_users = ''40'', cd_paid_users_count = ''0'',
                   cd_paid_users_description = []\<rparr>"
  let ?w = example_world_other_plan
  let ?run = "sponsorship example_django example_zerver example_corporate example_user
                example_sponsorship_post ?w"
  let ?stored = "example_realm\<lparr>plan_type := 3\<rparr>"
  let ?d2 = "(db ?w)\<lparr>sponsorship_requests :=
                 sponsorship_requests (db ?w) @ [new_sponsorship_request example_user ?cleaned],
               realms := (realms (db ?w))(realm_id (realm example_user) \<mapsto>
                 ?stored\<lparr>realm_org_type := cd_organization_type ?cleaned\<rparr>)\<rparr>"
  let ?d3 = "?d2\<lparr>sponsorship_pending_of :=
                 (sponsorship_pending_of ?d2)(realm_id (realm example_user) \<mapsto> True)\<rparr>"
  let ?d4 = "?d3\<lparr>billing_admins := insert (user_id example_user) (billing_admins ?d3)\<rparr>"
  have differs: "realm_org_type (realm example_user) \<noteq> cd_organization_type ?cleaned"
    by (simp add: example_user_def example_realm_def)
  have frame1: "\<forall>d d'. update_customer_sponsorship_status example_corporate example_user True d
                  = Inr d' \<longrightarrow> realms d' = realms d"
    by (auto simp: example_corporate_def)
  have frame2: "\<forall>d d'. do_make_user_billing_admin example_zerver example_user d = Inr d'
                  \<longrightarrow> realms d' = realms d"
    by (auto simp: example_zerver_def)
  note fact = sponsorship_org_type_write
    [OF example_facts(5) example_submission(1) example_facts(6) example_submission(2)
        frame1 frame2, where w = ?w]
  have returns: "orm_fault example_django
                   (SaveSponsorshipRequest (new_sponsorship_request example_user ?cleaned)) = None
     \<and> (realm_org_type (realm example_user) \<noteq> cd_organization_type ?cleaned \<longrightarrow>
          orm_fault example_django (SaveRealm (realm_id (realm example_user)) [''org_type''])
            = None
          \<and> realms (db ?w) (realm_id (realm example_user)) = Some ?stored)
     \<and> update_customer_sponsorship_status example_corporate example_user True
          (if realm_org_type (realm example_user) = cd_organization_type ?cleaned
           then (db ?w)\<lparr>sponsorship_requests :=
                  sponsorship_requests (db ?w) @ [new_sponsorship_request example_user ?cleaned]\<rparr>
           else ?d2) = Inr ?d3
     \<and> do_make_user_billing_admin example_zerver example_user ?d3 = Inr ?d4
     \<and> send_email_fault example_zerver
          (sponsorship_email example_zerver example_corporate example_user
             (get_org_type_display_name example_zerver (cd_organization_type ?cleaned))
             [] '' A school '' ''40'' ''0'' []) = None"
    using differs
    by (simp add: example_django_def example_corporate_def example_zerver_def
          example_world_other_plan_def example_world_def example_user_def example_realm_def)
  from fact [THEN conjunct2, rule_format, OF returns] obtain w' where
    success: "?run = (w', Inr (JsonSuccess []))"
    by blast
  from fact [THEN conjunct1, rule_format, OF success] differs obtain row where
    calls: "orm_calls w' = orm_calls ?w
              @ SaveSponsorshipRequest (new_sponsorship_request example_user ?cleaned)
                # [SaveRealm (realm_id (realm example_user)) [''org_type'']]"
    and row: "realms (db ?w) (realm_id (realm example_user)) = Some row"
    and rows: "realms (db w') = (realms (db ?w))(realm_id (realm example_user) \<mapsto>
                 row\<lparr>realm_org_type := cd_organization_type ?cleaned\<rparr>)"
    by auto
  from row have "row = ?stored"
    by (simp add: example_world_other_plan_def example_world_def example_user_def
          example_realm_def)
  with rows have "realms (db w') 1 = Some \<lparr>realm_id = 1, string_id = ''zulip'',
      realm_org_type = 20, plan_type = 3, demo_organization_scheduled_deletion_date = None\<rparr>"
    by (simp add: example_user_def example_realm_def)
  moreover from calls have "orm_calls w' = [SaveSponsorshipRequest
            \<lparr>sr_realm = 1, requested_by = 7, org_website = [], org_description = ''A school'',
             org_type = 20, sr_expected_total_users = ''40'', sr_paid_users_count = ''0'',
             sr_paid_users_description = []\<rparr>,
          SaveRealm 1 [''org_type'']]"
    by (simp add: new_sponsorship_request_def example_world_other_plan_def example_world_def
          example_user_def example_realm_def)
  ultimately show ?thesis
    by (simp add: success)
qed

subsection \<open>sponsorship: the optional fields\<close>








subsection \<open>initial_upgrade\<close>

text \<open>
  With billing enabled, a member who is not a guest, no customer for the realm and a
  plan that is not the free standard one, a request with the onboarding flag set is
  answered with the upgrade page, not with a redirect to the billing page. And with
  billing enabled a guest is answered 404.
\<close>

theorem initial_upgrade_onboarding_without_customer_counterexample:
  "BILLING_ENABLED example_django \<and> \<not> is_guest example_user
   \<and> get_customer_by_realm example_corporate (realm example_user) = None
   \<and> plan_type (realm example_user) \<noteq> PLAN_TYPE_STANDARD_FREE example_zerver
   \<and> initial_upgrade example_django example_zerver example_corporate example_user
         [''onboarding'' \<mapsto> ''true'']
       = Inr (Render ''corporate/upgrade.html'' 200
           (Some \<lparr>ctx_realm = example_realm, ctx_email = ''iago@zulip.com'',
                   ctx_seat_count = 7, ctx_signed_seat_count = ''7:signature'',
                   ctx_salt = ''salt'', min_invoiced_licenses = 30,
                   default_invoice_days_until_due = 30,
                   ctx_exempt_from_license_number_check = False,
                   ctx_plan = ''Zulip Cloud Standard'', free_trial_days = None,
                   ctx_onboarding = True,
                   ctx_page_params =
                     \<lparr>pp_seat_count = 7, annual_price = 8000, monthly_price = 800,
                      percent_off = 0,
                      pp_demo_organization_scheduled_deletion_date = None\<rparr>,
                   is_demo_organization = False,
                   ctx_manual_license_management = False\<rparr>))
   \<and> initial_upgrade example_django example_zerver example_corporate
         (example_user\<lparr>is_guest := True\<rparr>) Map.empty
       = Inr (Render ''404.html'' 404 None)"
proof -
  have "str_int 7 = ''7''"
    by (simp add: str_int_def str_nat.simps)
  then show ?thesis
    by (simp add: initial_upgrade_def initial_upgrade_body_def request_defs
          example_django_def example_zerver_def example_corporate_def example_user_def
          example_realm_def)
qed

text \<open>
  C6. \<open>initial_upgrade\<close> answers 404 when billing is disabled or the user is a guest;
  otherwise it redirects to the sponsorship request page when the customer is
  sponsorship-pending or the realm is on the free standard plan; otherwise it redirects
  to the billing page when a customer exists and has a current plan or the onboarding
  flag is set, with \<open>?onboarding=true\<close> appended when the flag is set; otherwise,
  and so whenever no customer exists, it renders the upgrade page.
\<close>

theorem initial_upgrade_decision:
  assumes "REQ_json_default (json_loads zv) get ''onboarding'' check_bool False = Inr onboarding"
    and "REQ_json_default (json_loads zv) get ''manual_license_management'' check_bool False
           = Inr manual_license_management"
    and "customer = get_customer_by_realm co (realm user)"
    and "pending_or_free \<longleftrightarrow>
           (\<exists>c. customer = Some c \<and> sponsorship_pending c)
           \<or> plan_type (realm user) = PLAN_TYPE_STANDARD_FREE zv"
    and "to_billing \<longleftrightarrow>
           (\<exists>c. customer = Some c \<and> (get_current_plan_by_customer co c \<noteq> None \<or> onboarding))"
  shows "\<exists>response.
           initial_upgrade dj zv co user get = Inr response
           \<and> (\<not> BILLING_ENABLED dj \<or> is_guest user
                \<longrightarrow> response = Render ''404.html'' 404 None)
           \<and> (BILLING_ENABLED dj \<and> \<not> is_guest user \<and> pending_or_free
                \<longrightarrow> response = HttpResponseRedirect (reverse dj ''sponsorship_request''))
           \<and> (BILLING_ENABLED dj \<and> \<not> is_guest user \<and> \<not> pending_or_free \<and> to_billing
                \<longrightarrow> response = HttpResponseRedirect
                      (if onboarding then reverse dj ''billing_home'' @ ''?onboarding=true''
                       else reverse dj ''billing_home''))
           \<and> (BILLING_ENABLED dj \<and> \<not> is_guest user \<and> \<not> pending_or_free \<and> \<not> to_billing
                \<longrightarrow> rendered_template response = Some ''corporate/upgrade.html''
                    \<and> status_code response = 200)"
proof -
  have view: "initial_upgrade dj zv co user get =
                Inr (initial_upgrade_body dj zv co user onboarding manual_license_management)"
    by (simp add: initial_upgrade_def then_do_def assms(1,2))
  have pending: "pending_or_free \<longleftrightarrow>
      (case get_customer_by_realm co (realm user) of None \<Rightarrow> False
       | Some c \<Rightarrow> sponsorship_pending c)
      \<or> plan_type (realm user) = PLAN_TYPE_STANDARD_FREE zv"
    unfolding assms(4) assms(3) by (cases "get_customer_by_realm co (realm user)") simp_all
  have billing: "to_billing \<longleftrightarrow>
      (case get_customer_by_realm co (realm user) of None \<Rightarrow> False
       | Some c \<Rightarrow> get_current_plan_by_customer co c \<noteq> None \<or> onboarding)"
    unfolding assms(5) assms(3) by (cases "get_customer_by_realm co (realm user)") simp_all
  show ?thesis
    unfolding view
    by (simp add: initial_upgrade_body_def Let_def pending billing rendered_template_def
          status_code_def split: prod.splits)
qed

theorem initial_upgrade_decision_witness:
  "initial_upgrade example_django example_zerver
     (example_corporate\<lparr>get_customer_by_realm :=
        (\<lambda>_. Some \<lparr>sponsorship_pending = False, default_discount = None,
                     exempt_from_license_number_check = False\<rparr>)\<rparr>)
     example_user [''onboarding'' \<mapsto> ''true'']
   = Inr (HttpResponseRedirect ''/billing_home/?onboarding=true'')"
proof -
  let ?co = "example_corporate\<lparr>get_customer_by_realm :=
        (\<lambda>_. Some \<lparr>sponsorship_pending = False, default_discount = None,
                     exempt_from_license_number_check = False\<rparr>)\<rparr>"
  let ?customer = "Some \<lparr>sponsorship_pending = False, default_discount = None,
                     exempt_from_license_number_check = False\<rparr>"
  have onboarding: "REQ_json_default (json_loads example_zerver) [''onboarding'' \<mapsto> ''true'']
                      ''onboarding'' check_bool False = Inr True"
    by (simp add: request_defs example_zerver_def)
  have manual: "REQ_json_default (json_loads example_zerver) [''onboarding'' \<mapsto> ''true'']
                  ''manual_license_management'' check_bool False = Inr False"
    by (simp add: request_defs example_zerver_def)
  have customer: "?customer = get_customer_by_realm ?co (realm example_user)"
    by simp
  have pending: "False \<longleftrightarrow>
           (\<exists>c. ?customer = Some c \<and> sponsorship_pending c)
           \<or> plan_type (realm example_user) = PLAN_TYPE_STANDARD_FREE example_zerver"
    by (simp add: example_user_def example_realm_def example_zerver_def)
  have billing: "True \<longleftrightarrow>
           (\<exists>c. ?customer = Some c \<and> (get_current_plan_by_customer ?co c \<noteq> None \<or> True))"
    by simp
  from initial_upgrade_decision [OF onboarding manual customer pending billing,
      of example_django]
  obtain response where
    "initial_upgrade example_django example_zerver ?co example_user [''onboarding'' \<mapsto> ''true'']
       = Inr response"
    and "BILLING_ENABLED example_django \<and> \<not> is_guest example_user \<and> \<not> False \<and> True
           \<longrightarrow> response = HttpResponseRedirect
                 (if True then reverse example_django ''billing_home'' @ ''?onboarding=true''
                  else reverse example_django ''billing_home'')"
    by blast
  then show ?thesis
    by (simp add: example_django_def example_user_def)
qed

end
